theory Spec2Isabelle
  imports Complex_Main "HOL-Library.Sublist"
begin

section \<open>Arkanoid: the simulation core of \<^verbatim>\<open>arkanoid.py\<close>\<close>

text \<open>
  A shallow embedding of the simulation classes of \<^verbatim>\<open>arkanoid.py\<close> (Vector2D, Ball,
  Paddle, Brick, PowerUp, Particle, ArkanoidGame). Drawing code is left out: it reads the
  state and never writes it.

  Conventions of the embedding.
  \<^item> Python \<^verbatim>\<open>float\<close> values are modelled as \<^typ>\<open>real\<close> (exact arithmetic, no rounding,
    no NaN); Python \<^verbatim>\<open>int\<close> values that are only ever integers (score, lives, level,
    health, points, paddle width, field size) are \<^typ>\<open>int\<close>.
  \<^item> Mutation is explicit state passing; an object held in a list is identified by
    its position in that list, which is what identity-based \<^verbatim>\<open>list.remove\<close> does for
    the distinct objects the game creates.
  \<^item> The module-level pseudo-random generator is an explicit oracle \<open>rng\<close>: an infinite
    sequence of raw draws, one consumed by each call into \<^verbatim>\<open>random\<close>.
  \<^item> \<^verbatim>\<open>pygame.Rect.colliderect\<close> belongs to the pygame library, not to the repository:
    every function that uses it takes the overlap test as the parameter \<open>cr\<close>.
\<close>

subsection \<open>Enumerations\<close>

datatype GameState = MENU | PLAYING | PAUSED | GAME_OVER | VICTORY

datatype PowerUpType =
  EXPAND_PADDLE | MULTI_BALL | SLOW_BALL | LASER | STICKY_PADDLE | EXTRA_LIFE

text \<open>The only exception the simulation code can raise: the true division in
  \<^verbatim>\<open>Paddle.get_collision_normal\<close> when the paddle width is 0.\<close>

datatype error = ZeroDivisionError

subsection \<open>The random source\<close>

type_synonym rng = "nat \<Rightarrow> nat"

definition rng_next :: "rng \<Rightarrow> rng" where
  "rng_next r = (\<lambda>n. r (Suc n))"


text \<open>\<^verbatim>\<open>random.random()\<close>: a 53-bit integer divided by \<open>2^53\<close>, so a value in \<open>[0, 1)\<close>.\<close>

definition random_random :: "rng \<Rightarrow> real \<times> rng" where
  "random_random r = (real (r 0 mod 2 ^ 53) / 2 ^ 53, rng_next r)"

text \<open>\<^verbatim>\<open>random.uniform(a, b)\<close> is \<^verbatim>\<open>a + (b - a) * random()\<close>.\<close>

definition random_uniform :: "real \<Rightarrow> real \<Rightarrow> rng \<Rightarrow> real \<times> rng" where
  "random_uniform a b r = (let (u, r') = random_random r in (a + (b - a) * u, r'))"

text \<open>\<^verbatim>\<open>random.randint(a, b)\<close> for \<open>a \<le> b\<close>: an integer of \<open>[a, b]\<close>.\<close>

definition random_randint :: "int \<Rightarrow> int \<Rightarrow> rng \<Rightarrow> int \<times> rng" where
  "random_randint a b r = (a + int (r 0 mod nat (b - a + 1)), rng_next r)"

text \<open>\<^verbatim>\<open>random.choice([-200, 200])\<close>, the only use of \<^verbatim>\<open>choice\<close>.\<close>

definition random_choice_launch :: "rng \<Rightarrow> real \<times> rng" where
  "random_choice_launch r = ((if r 0 mod 2 = 0 then - 200 else 200), rng_next r)"

subsection \<open>Vector2D\<close>

record Vector2D =
  vec_x :: real
  vec_y :: real

definition vec :: "real \<Rightarrow> real \<Rightarrow> Vector2D" where
  "vec a b = \<lparr>vec_x = a, vec_y = b\<rparr>"

definition vec_add :: "Vector2D \<Rightarrow> Vector2D \<Rightarrow> Vector2D" where
  "vec_add u v = vec (vec_x u + vec_x v) (vec_y u + vec_y v)"

definition vec_mul :: "Vector2D \<Rightarrow> real \<Rightarrow> Vector2D" where
  "vec_mul v k = vec (vec_x v * k) (vec_y v * k)"

definition magnitude :: "Vector2D \<Rightarrow> real" where
  "magnitude v = sqrt ((vec_x v)\<^sup>2 + (vec_y v)\<^sup>2)"

definition vec_normalize :: "Vector2D \<Rightarrow> Vector2D" where
  "vec_normalize v =
     (let m = sqrt ((vec_x v)\<^sup>2 + (vec_y v)\<^sup>2)
      in if m > 0 then vec (vec_x v / m) (vec_y v / m) else v)"

definition reflect :: "Vector2D \<Rightarrow> Vector2D \<Rightarrow> Vector2D" where
  "reflect v n =
     (let dot = 2 * (vec_x v * vec_x n + vec_y v * vec_y n)
      in vec (vec_x v - dot * vec_x n) (vec_y v - dot * vec_y n))"

subsection \<open>Ball\<close>

record Ball =
  ball_pos :: Vector2D
  ball_vel :: Vector2D
  ball_radius :: real
  ball_trail :: "(real \<times> real) list"
  ball_speed_multiplier :: real

text \<open>\<^verbatim>\<open>Ball.__init__\<close>: the horizontal launch direction is drawn from the random source.\<close>

definition Ball_init :: "real \<Rightarrow> real \<Rightarrow> rng \<Rightarrow> Ball \<times> rng" where
  "Ball_init a b r =
     (let (d, r') = random_choice_launch r
      in (\<lparr>ball_pos = vec a b, ball_vel = vec d (- 300), ball_radius = 8,
           ball_trail = [], ball_speed_multiplier = 1\<rparr>, r'))"

text \<open>
  A Python dict literal \<^verbatim>\<open>{k1: v1, k2: v2, ...}\<close> stores its items in order; a key that
  is already present keeps its place and takes the new value. \<open>dict_setitem\<close> is one
  store, \<open>dict_literal\<close> the literal, and the resulting association list is what
  \<^verbatim>\<open>.items()\<close> iterates.
\<close>

fun dict_setitem :: "'k \<Rightarrow> 'v \<Rightarrow> ('k \<times> 'v) list \<Rightarrow> ('k \<times> 'v) list" where
  "dict_setitem k v [] = [(k, v)]"
| "dict_setitem k v ((k', v') # d) =
     (if k' = k then (k, v) # d else (k', v') # dict_setitem k v d)"

definition dict_literal :: "('k \<times> 'v) list \<Rightarrow> ('k \<times> 'v) list" where
  "dict_literal kvs = foldl (\<lambda>d (k, v). dict_setitem k v d) [] kvs"

text \<open>The three lambdas of \<^verbatim>\<open>collision_handlers\<close> in \<^verbatim>\<open>Ball.update\<close>, as data; each reads
  the velocity when it is called.\<close>

datatype wall_handler = Left_wall | Right_wall | Top_wall

fun run_handler :: "wall_handler \<Rightarrow> Vector2D \<Rightarrow> Vector2D" where
  "run_handler Left_wall v = v\<lparr>vec_x := \<bar>vec_x v\<bar>\<rparr>"
| "run_handler Right_wall v = v\<lparr>vec_x := - \<bar>vec_x v\<bar>\<rparr>"
| "run_handler Top_wall v = v\<lparr>vec_y := \<bar>vec_y v\<bar>\<rparr>"

text \<open>The dict of \<^verbatim>\<open>Ball.update\<close>: its keys are the three conditions, that is, booleans.\<close>

definition collision_handlers ::
  "Vector2D \<Rightarrow> real \<Rightarrow> int \<Rightarrow> (bool \<times> wall_handler) list" where
  "collision_handlers p rad w = dict_literal
     [(vec_x p - rad \<le> 0, Left_wall),
      (vec_x p + rad \<ge> real_of_int w, Right_wall),
      (vec_y p - rad \<le> 0, Top_wall)]"

text \<open>\<^verbatim>\<open>[handler() for condition, handler in collision_handlers.items() if condition]\<close>\<close>

definition run_handlers :: "(bool \<times> wall_handler) list \<Rightarrow> Vector2D \<Rightarrow> Vector2D" where
  "run_handlers items v = foldl (\<lambda>u (c, h). if c then run_handler h u else u) v items"

text \<open>\<^verbatim>\<open>Ball.update(dt, width, height)\<close>: the moved ball and the lost signal.\<close>

definition Ball_update :: "Ball \<Rightarrow> real \<Rightarrow> int \<Rightarrow> int \<Rightarrow> Ball \<times> bool" where
  "Ball_update b dt w h =
     (let movement = vec_mul (ball_vel b) (dt * ball_speed_multiplier b);
          p = vec_add (ball_pos b) movement;
          tr = ball_trail b @ [(vec_x p, vec_y p)];
          tr' = drop (length tr - 10) tr;
          v = run_handlers (collision_handlers p (ball_radius b) w) (ball_vel b)
      in (b\<lparr>ball_pos := p, ball_trail := tr', ball_vel := v\<rparr>,
          vec_y p > real_of_int h))"

subsection \<open>Paddle\<close>

record Paddle =
  paddle_x :: real
  paddle_y :: real
  paddle_width :: int
  paddle_height :: int
  paddle_base_width :: int
  paddle_vel :: real
  paddle_sticky :: bool

definition Paddle_init :: "real \<Rightarrow> real \<Rightarrow> Paddle" where
  "Paddle_init a b =
     \<lparr>paddle_x = a, paddle_y = b, paddle_width = 100, paddle_height = 20,
      paddle_base_width = 100, paddle_vel = 0, paddle_sticky = False\<rparr>"

text \<open>\<^verbatim>\<open>Paddle.update(dt, mouse_x, width)\<close>; \<^verbatim>\<open>self.width // 2\<close> is integer floor division.\<close>

definition Paddle_update :: "Paddle \<Rightarrow> real \<Rightarrow> int \<Rightarrow> int \<Rightarrow> Paddle" where
  "Paddle_update p dt mouse_x w =
     (let target_x = mouse_x - paddle_width p div 2;
          distance = real_of_int target_x - paddle_x p;
          v = distance * 10;
          x1 = paddle_x p + v * dt
      in p\<lparr>paddle_vel := v,
            paddle_x := max 0 (min x1 (real_of_int (w - paddle_width p)))\<rparr>)"

text \<open>
  \<^verbatim>\<open>Paddle.get_collision_normal(ball_x)\<close>. Both divisions are true divisions; the second
  divides by \<^verbatim>\<open>self.width / 2\<close> and raises ZeroDivisionError for a paddle of width 0.
\<close>

definition get_collision_normal :: "Paddle \<Rightarrow> real \<Rightarrow> error + Vector2D" where
  "get_collision_normal p ball_x =
     (if real_of_int (paddle_width p) / 2 = 0 then Inl ZeroDivisionError
      else
        let relative_pos =
              (ball_x - (paddle_x p + real_of_int (paddle_width p) / 2))
                / (real_of_int (paddle_width p) / 2);
            relative_pos' = max (- 1) (min 1 relative_pos);
            angle = relative_pos' * pi / 3
        in Inr (vec (sin angle) (- cos angle)))"

subsection \<open>Brick\<close>

record Brick =
  brick_x :: real
  brick_y :: real
  brick_width :: int
  brick_height :: int
  brick_health :: int
  brick_max_health :: int
  brick_points :: int
  brick_powerup :: "PowerUpType option"

text \<open>\<^verbatim>\<open>PowerUpType(k)\<close> for the values \<open>1..6\<close> that \<^verbatim>\<open>random.randint(1, 6)\<close> returns.\<close>

definition PowerUpType_of :: "int \<Rightarrow> PowerUpType" where
  "PowerUpType_of k =
     (if k = 1 then EXPAND_PADDLE else if k = 2 then MULTI_BALL
      else if k = 3 then SLOW_BALL else if k = 4 then LASER
      else if k = 5 then STICKY_PADDLE else EXTRA_LIFE)"

text \<open>\<^verbatim>\<open>Brick.__init__\<close>: the condition \<^verbatim>\<open>random.random() < 0.1\<close> is drawn first, the kind
  only when it holds.\<close>

definition Brick_init :: "real \<Rightarrow> real \<Rightarrow> int \<Rightarrow> rng \<Rightarrow> Brick \<times> rng" where
  "Brick_init a b hlth r =
     (let (u, r1) = random_random r;
          (pw, r2) = (if u < 1 / 10
                      then (let (k, r') = random_randint 1 6 r1 in (Some (PowerUpType_of k), r'))
                      else (None, r1))
      in (\<lparr>brick_x = a, brick_y = b, brick_width = 75, brick_height = 25,
           brick_health = hlth, brick_max_health = hlth, brick_points = hlth * 100,
           brick_powerup = pw\<rparr>, r2))"

text \<open>\<^verbatim>\<open>Brick.hit()\<close>: the brick after the hit, and whether it is destroyed.\<close>

definition hit :: "Brick \<Rightarrow> Brick \<times> bool" where
  "hit b = (b\<lparr>brick_health := brick_health b - 1\<rparr>, brick_health b - 1 \<le> 0)"

subsection \<open>PowerUp and Particle\<close>

record PowerUp =
  powerup_pos :: Vector2D
  powerup_type :: PowerUpType
  powerup_vel :: Vector2D
  powerup_size :: real
  powerup_active :: bool

definition PowerUp_init :: "real \<Rightarrow> real \<Rightarrow> PowerUpType \<Rightarrow> PowerUp" where
  "PowerUp_init a b t =
     \<lparr>powerup_pos = vec a b, powerup_type = t, powerup_vel = vec 0 150,
      powerup_size = 20, powerup_active = True\<rparr>"

text \<open>\<^verbatim>\<open>PowerUp.update(dt, height)\<close>: the fallen power-up and whether it left the field.\<close>

definition PowerUp_update :: "PowerUp \<Rightarrow> real \<Rightarrow> int \<Rightarrow> PowerUp \<times> bool" where
  "PowerUp_update p dt h =
     (let q = vec_add (powerup_pos p) (vec_mul (powerup_vel p) dt)
      in (p\<lparr>powerup_pos := q\<rparr>, vec_y q > real_of_int h))"

record Particle =
  particle_pos :: Vector2D
  particle_vel :: Vector2D
  particle_life :: real
  particle_color :: "int \<times> int \<times> int \<times> int"
  particle_size :: real

definition Particle_init ::
  "real \<Rightarrow> real \<Rightarrow> Vector2D \<Rightarrow> int \<times> int \<times> int \<times> int \<Rightarrow> rng \<Rightarrow> Particle \<times> rng" where
  "Particle_init a b v c r =
     (let (s, r') = random_uniform 2 5 r
      in (\<lparr>particle_pos = vec a b, particle_vel = v, particle_life = 1,
           particle_color = c, particle_size = s\<rparr>, r'))"

definition Particle_update :: "Particle \<Rightarrow> real \<Rightarrow> Particle \<times> bool" where
  "Particle_update p dt =
     (let q = vec_add (particle_pos p) (vec_mul (particle_vel p) dt);
          v = (particle_vel p)\<lparr>vec_y := vec_y (particle_vel p) + 500 * dt\<rparr>;
          l = particle_life p - dt * 2
      in (p\<lparr>particle_pos := q, particle_vel := v, particle_life := l,
             particle_size := particle_size p * (98 / 100)\<rparr>, l > 0))"

definition PARTICLE :: "int \<times> int \<times> int \<times> int" where
  "PARTICLE = (255, 255, 200, 200)"

subsection \<open>Rectangles and input events\<close>

text \<open>The four arguments of a \<^verbatim>\<open>pygame.Rect(left, top, width, height)\<close> call.\<close>

record Rect =
  rect_left :: real
  rect_top :: real
  rect_w :: real
  rect_h :: real

definition mk_rect :: "real \<Rightarrow> real \<Rightarrow> real \<Rightarrow> real \<Rightarrow> Rect" where
  "mk_rect a b c d = \<lparr>rect_left = a, rect_top = b, rect_w = c, rect_h = d\<rparr>"

definition paddle_rect :: "Paddle \<Rightarrow> Rect" where
  "paddle_rect p =
     mk_rect (paddle_x p) (paddle_y p) (real_of_int (paddle_width p))
       (real_of_int (paddle_height p))"

definition ball_rect :: "Ball \<Rightarrow> Rect" where
  "ball_rect b =
     mk_rect (vec_x (ball_pos b) - ball_radius b) (vec_y (ball_pos b) - ball_radius b)
       (ball_radius b * 2) (ball_radius b * 2)"

definition brick_rect :: "Brick \<Rightarrow> Rect" where
  "brick_rect b =
     mk_rect (brick_x b) (brick_y b) (real_of_int (brick_width b))
       (real_of_int (brick_height b))"

definition powerup_rect :: "PowerUp \<Rightarrow> Rect" where
  "powerup_rect p =
     mk_rect (vec_x (powerup_pos p) - powerup_size p) (vec_y (powerup_pos p) - powerup_size p)
       (powerup_size p * 2) (powerup_size p * 2)"

text \<open>The events the handlers look at; \<open>KEYDOWN k\<close> carries \<^verbatim>\<open>event.key\<close>.\<close>

datatype Event = QUIT | MOUSEBUTTONDOWN | KEYDOWN nat | Other_event

definition K_ESCAPE :: nat where
  "K_ESCAPE = 27"

subsection \<open>ArkanoidGame\<close>

text \<open>The simulation fields of \<^verbatim>\<open>ArkanoidGame\<close>, and the state of the random module.\<close>

record ArkanoidGame =
  width :: int
  height :: int
  state :: GameState
  score :: int
  lives :: int
  level :: int
  paddle :: Paddle
  balls :: "Ball list"
  bricks :: "Brick list"
  particles :: "Particle list"
  powerups :: "PowerUp list"
  random_state :: rng

text \<open>
  \<^verbatim>\<open>_generate_level\<close>: the comprehension visits the rows \<open>y\<close> of \<^verbatim>\<open>range(rows)\<close> and in
  each the columns \<open>x\<close> of \<^verbatim>\<open>range(cols)\<close>; per cell it draws \<^verbatim>\<open>random.random() > 0.1\<close>
  and only then constructs the brick. \<open>level_cells\<close> is the visiting order.
\<close>

definition level_cells :: "int \<Rightarrow> int \<Rightarrow> (nat \<times> nat) list" where
  "level_cells rows cols =
     concat (map (\<lambda>y. map (\<lambda>x. (x, y)) [0 ..< nat cols]) [0 ..< nat rows])"

fun generate_cells :: "int \<Rightarrow> (nat \<times> nat) list \<Rightarrow> rng \<Rightarrow> Brick list \<times> rng" where
  "generate_cells rows [] r = ([], r)"
| "generate_cells rows ((x, y) # cs) r =
     (let (u, r1) = random_random r
      in if u > 1 / 10
         then (let (b, r2) = Brick_init (real x * 78 + 10) (real y * 30 + 60)
                               (min (rows - int y) 5) r1;
                   (bs, r3) = generate_cells rows cs r2
               in (b # bs, r3))
         else generate_cells rows cs r1)"

definition generate_level :: "int \<Rightarrow> ArkanoidGame \<Rightarrow> ArkanoidGame" where
  "generate_level lvl g =
     (let rows = min (5 + lvl) 10;
          cols = 10;
          (bs, r) = generate_cells rows (level_cells rows cols) (random_state g)
      in g\<lparr>bricks := bs, random_state := r\<rparr>)"

text \<open>\<^verbatim>\<open>_create_particles\<close>: first all the velocities, then the particles (one draw each
  for the size).\<close>

fun particle_velocities :: "nat \<Rightarrow> rng \<Rightarrow> Vector2D list \<times> rng" where
  "particle_velocities 0 r = ([], r)"
| "particle_velocities (Suc n) r =
     (let (a, r1) = random_uniform (- 200) 200 r;
          (b, r2) = random_uniform (- 300) (- 100) r1;
          (vs, r3) = particle_velocities n r2
      in (vec a b # vs, r3))"

fun particles_of :: "real \<Rightarrow> real \<Rightarrow> Vector2D list \<Rightarrow> rng \<Rightarrow> Particle list \<times> rng" where
  "particles_of a b [] r = ([], r)"
| "particles_of a b (v # vs) r =
     (let (p, r1) = Particle_init a b v PARTICLE r;
          (ps, r2) = particles_of a b vs r1
      in (p # ps, r2))"

definition create_particles :: "real \<Rightarrow> real \<Rightarrow> nat \<Rightarrow> ArkanoidGame \<Rightarrow> ArkanoidGame" where
  "create_particles a b n g =
     (let (vs, r1) = particle_velocities n (random_state g);
          (ps, r2) = particles_of a b vs r1
      in g\<lparr>particles := particles g @ ps, random_state := r2\<rparr>)"

text \<open>\<^verbatim>\<open>ArkanoidGame.__init__(width, height)\<close>.\<close>

definition ArkanoidGame_init :: "int \<Rightarrow> int \<Rightarrow> rng \<Rightarrow> ArkanoidGame" where
  "ArkanoidGame_init w h r =
     (let (b, r1) = Ball_init (real_of_int (w div 2)) (real_of_int (h - 80)) r
      in generate_level 1
           \<lparr>width = w, height = h, state = MENU, score = 0, lives = 3, level = 1,
            paddle = Paddle_init (real_of_int (w div 2 - 50)) (real_of_int (h - 50)),
            balls = [b], bricks = [], particles = [], powerups = [], random_state = r1\<rparr>)"

subsection \<open>Collision resolution\<close>

text \<open>
  The paddle part of \<^verbatim>\<open>_handle_collision\<close> (lines 320-331). \<open>brect\<close> is \<^verbatim>\<open>ball_rect\<close>,
  computed by the caller before the paddle part moves the ball.
\<close>

definition paddle_collision ::
  "(Rect \<Rightarrow> Rect \<Rightarrow> bool) \<Rightarrow> Rect \<Rightarrow> Ball \<Rightarrow> ArkanoidGame \<Rightarrow> error + Ball \<times> ArkanoidGame" where
  "paddle_collision cr brect ball g =
     (if cr (paddle_rect (paddle g)) brect \<and> vec_y (ball_vel ball) > 0
      then (case get_collision_normal (paddle g) (vec_x (ball_pos ball)) of
              Inl e \<Rightarrow> Inl e
            | Inr normal \<Rightarrow>
                (let v1 = reflect (ball_vel ball) normal;
                     v2 = vec_mul (vec_normalize v1) (magnitude v1);
                     p = (ball_pos ball)\<lparr>vec_y := paddle_y (paddle g) - ball_radius ball\<rparr>;
                     v3 = v2\<lparr>vec_x := vec_x v2 + paddle_vel (paddle g) * (3 / 10)\<rparr>
                 in Inr (ball\<lparr>ball_vel := v3, ball_pos := p\<rparr>,
                         create_particles (vec_x p) (vec_y p) 5 g)))
      else Inr (ball, g))"

text \<open>The centre the code uses for a brick: \<^verbatim>\<open>brick.x + brick.width // 2\<close> and
  \<^verbatim>\<open>brick.y + brick.height // 2\<close>, with integer floor division.\<close>

definition brick_center_x :: "Brick \<Rightarrow> real" where
  "brick_center_x b = brick_x b + real_of_int (brick_width b div 2)"

definition brick_center_y :: "Brick \<Rightarrow> real" where
  "brick_center_y b = brick_y b + real_of_int (brick_height b div 2)"

text \<open>Lines 347-356: the bounce off a brick.\<close>

definition bounce :: "Brick \<Rightarrow> Ball \<Rightarrow> Ball" where
  "bounce brick ball =
     (let diff_x = vec_x (ball_pos ball) - brick_center_x brick;
          diff_y = vec_y (ball_pos ball) - brick_center_y brick
      in if \<bar>diff_x\<bar> > \<bar>diff_y\<bar>
         then ball\<lparr>ball_vel := (ball_vel ball)\<lparr>vec_x := - vec_x (ball_vel ball)\<rparr>\<rparr>
         else ball\<lparr>ball_vel := (ball_vel ball)\<lparr>vec_y := - vec_y (ball_vel ball)\<rparr>\<rparr>)"

text \<open>Lines 337-345: what happens to the game when \<^verbatim>\<open>brick.hit()\<close> returned True. The
  brick has already been taken out of \<open>bricks\<close> by the caller.\<close>

definition destroy_brick :: "Brick \<Rightarrow> ArkanoidGame \<Rightarrow> ArkanoidGame" where
  "destroy_brick brick g =
     (let g1 = g\<lparr>score := score g + brick_points brick\<rparr>;
          g2 = create_particles (brick_center_x brick) (brick_center_y brick) 10 g1
      in case brick_powerup brick of
           Some t \<Rightarrow> g2\<lparr>powerups := powerups g2 @
                          [PowerUp_init (brick_center_x brick) (brick_center_y brick) t]\<rparr>
         | None \<Rightarrow> g2)"

text \<open>
  The brick loop of \<^verbatim>\<open>_handle_collision\<close> (lines 333-357) over the snapshot
  \<^verbatim>\<open>self.bricks[:]\<close>. \<open>seen\<close> are the bricks already passed over, \<open>brick # rest\<close> the ones
  still to visit, so \<^verbatim>\<open>self.bricks\<close> is \<open>seen @ brick # rest\<close> when \<open>brick\<close> is tested. The
  loop ends at the first brick that collides (\<^verbatim>\<open>break\<close>).
\<close>

fun brick_collisions ::
  "(Rect \<Rightarrow> Rect \<Rightarrow> bool) \<Rightarrow> Rect \<Rightarrow> Brick list \<Rightarrow> Brick list \<Rightarrow> Ball \<Rightarrow> ArkanoidGame
     \<Rightarrow> Ball \<times> ArkanoidGame" where
  "brick_collisions cr brect seen [] ball g = (ball, g)"
| "brick_collisions cr brect seen (brick # rest) ball g =
     (if cr (brick_rect brick) brect
      then (let (brick', destroyed) = hit brick;
                g' = (if destroyed then destroy_brick brick' (g\<lparr>bricks := seen @ rest\<rparr>)
                      else g\<lparr>bricks := seen @ brick' # rest\<rparr>)
            in (bounce brick' ball, g'))
      else brick_collisions cr brect (seen @ [brick]) rest ball g)"

text \<open>\<^verbatim>\<open>_handle_collision(ball, dt)\<close>.\<close>

definition handle_collision ::
  "(Rect \<Rightarrow> Rect \<Rightarrow> bool) \<Rightarrow> Ball \<Rightarrow> real \<Rightarrow> ArkanoidGame \<Rightarrow> error + Ball \<times> ArkanoidGame" where
  "handle_collision cr ball dt g =
     (let brect = ball_rect ball
      in case paddle_collision cr brect ball g of
           Inl e \<Rightarrow> Inl e
         | Inr (ball1, g1) \<Rightarrow> Inr (brick_collisions cr brect [] (bricks g1) ball1 g1))"

subsection \<open>Power-ups\<close>

text \<open>
  The dispatch table \<^verbatim>\<open>effects\<close> of \<^verbatim>\<open>_apply_powerup\<close>. Its keys are five distinct enum
  members; \<open>LASER\<close> is not among them, so \<^verbatim>\<open>effects.get\<close> gives None and nothing runs.
\<close>

fun effect :: "PowerUpType \<Rightarrow> ArkanoidGame \<Rightarrow> ArkanoidGame" where
  "effect EXPAND_PADDLE g =
     g\<lparr>paddle := (paddle g)\<lparr>paddle_width := min (paddle_width (paddle g) + 30) 200\<rparr>\<rparr>"
| "effect MULTI_BALL g =
     (case balls g of
        [] \<Rightarrow> g
      | b0 # _ \<Rightarrow>
          (let (n1, r1) = Ball_init (vec_x (ball_pos b0)) (vec_y (ball_pos b0)) (random_state g);
               (n2, r2) = Ball_init (vec_x (ball_pos b0)) (vec_y (ball_pos b0)) r1
           in g\<lparr>balls := balls g @ [n1, n2], random_state := r2\<rparr>))"
| "effect SLOW_BALL g =
     g\<lparr>balls := map (\<lambda>b. b\<lparr>ball_speed_multiplier := 7 / 10\<rparr>) (balls g)\<rparr>"
| "effect STICKY_PADDLE g = g\<lparr>paddle := (paddle g)\<lparr>paddle_sticky := True\<rparr>\<rparr>"
| "effect EXTRA_LIFE g = g\<lparr>lives := lives g + 1\<rparr>"
| "effect LASER g = g"

definition apply_powerup :: "PowerUpType \<Rightarrow> ArkanoidGame \<Rightarrow> ArkanoidGame" where
  "apply_powerup t g = (let g1 = effect t g in g1\<lparr>score := score g1 + 50\<rparr>)"

text \<open>
  The loop of \<^verbatim>\<open>_handle_powerups\<close> over the snapshot \<^verbatim>\<open>self.powerups[:]\<close>; \<open>prect\<close> is
  \<^verbatim>\<open>paddle_rect\<close>, computed once before the loop. \<open>kept\<close> are the power-ups already
  visited that stay in play, so \<^verbatim>\<open>self.powerups\<close> is \<open>kept @ p # rest\<close> when \<open>p\<close> is
  visited.
\<close>

fun powerups_loop ::
  "(Rect \<Rightarrow> Rect \<Rightarrow> bool) \<Rightarrow> real \<Rightarrow> Rect \<Rightarrow> PowerUp list \<Rightarrow> PowerUp list \<Rightarrow> ArkanoidGame
     \<Rightarrow> ArkanoidGame" where
  "powerups_loop cr dt prect kept [] g = g"
| "powerups_loop cr dt prect kept (p # rest) g =
     (let (p', out) = PowerUp_update p dt (height g)
      in if out then powerups_loop cr dt prect kept rest (g\<lparr>powerups := kept @ rest\<rparr>)
         else if cr prect (powerup_rect p')
         then (let g1 = apply_powerup (powerup_type p') g;
                   g2 = g1\<lparr>powerups := kept @ rest\<rparr>;
                   g3 = create_particles (vec_x (powerup_pos p')) (vec_y (powerup_pos p')) 15 g2
               in powerups_loop cr dt prect kept rest g3)
         else powerups_loop cr dt prect (kept @ [p']) rest
                (g\<lparr>powerups := kept @ p' # rest\<rparr>))"

definition handle_powerups ::
  "(Rect \<Rightarrow> Rect \<Rightarrow> bool) \<Rightarrow> real \<Rightarrow> ArkanoidGame \<Rightarrow> ArkanoidGame" where
  "handle_powerups cr dt g = powerups_loop cr dt (paddle_rect (paddle g)) [] (powerups g) g"

subsection \<open>The state handlers\<close>

text \<open>
  The ball loop of \<^verbatim>\<open>_handle_playing\<close> (lines 437-447) over the snapshot
  \<^verbatim>\<open>self.balls[:]\<close>. \<open>kept\<close> are the balls already visited that are still in play, so
  \<^verbatim>\<open>self.balls\<close> is \<open>kept @ ball # rest\<close> when \<open>ball\<close> is visited; it can only become empty
  at the last ball of the snapshot.
\<close>

fun balls_loop ::
  "(Rect \<Rightarrow> Rect \<Rightarrow> bool) \<Rightarrow> real \<Rightarrow> Ball list \<Rightarrow> Ball list \<Rightarrow> ArkanoidGame
     \<Rightarrow> error + ArkanoidGame" where
  "balls_loop cr dt kept [] g = Inr g"
| "balls_loop cr dt kept (ball # rest) g =
     (let (ball', lost) = Ball_update ball dt (width g) (height g)
      in if lost
         then (let g1 = g\<lparr>balls := kept @ rest\<rparr>
               in if balls g1 = []
                  then (let g2 = g1\<lparr>lives := lives g1 - 1\<rparr>
                        in if lives g2 > 0
                           then (let (nb, r) = Ball_init (real_of_int (width g2 div 2))
                                                 (real_of_int (height g2 - 80)) (random_state g2)
                                 in balls_loop cr dt [nb] rest
                                      (g2\<lparr>balls := [nb], random_state := r\<rparr>))
                           else balls_loop cr dt kept rest (g2\<lparr>state := GAME_OVER\<rparr>))
                  else balls_loop cr dt kept rest g1)
         else (case handle_collision cr ball' dt g of
                 Inl e \<Rightarrow> Inl e
               | Inr (ball'', g1) \<Rightarrow>
                   balls_loop cr dt (kept @ [ball'']) rest
                     (g1\<lparr>balls := kept @ ball'' # rest\<rparr>)))"

text \<open>Line 449: \<^verbatim>\<open>[p for p in self.particles if p.update(dt)]\<close>.\<close>

definition update_particles :: "real \<Rightarrow> Particle list \<Rightarrow> Particle list" where
  "update_particles dt ps = map fst (filter snd (map (\<lambda>p. Particle_update p dt) ps))"

text \<open>Lines 452-459: the clear check.\<close>

definition check_victory :: "ArkanoidGame \<Rightarrow> ArkanoidGame" where
  "check_victory g =
     (if bricks g = []
      then (let g1 = g\<lparr>level := level g + 1\<rparr>
            in if level g1 > 5 then g1\<lparr>state := VICTORY\<rparr>
               else (let g2 = generate_level (level g1) g1;
                         (b, r) = Ball_init (real_of_int (width g2 div 2))
                                    (real_of_int (height g2 - 80)) (random_state g2)
                     in g2\<lparr>balls := [b], random_state := r\<rparr>))
      else g)"

text \<open>Lines 461-463: the pause check.\<close>

definition check_pause :: "Event list \<Rightarrow> ArkanoidGame \<Rightarrow> ArkanoidGame" where
  "check_pause events g =
     foldl (\<lambda>g' e. if e = KEYDOWN K_ESCAPE then g'\<lparr>state := PAUSED\<rparr> else g') g events"

text \<open>\<^verbatim>\<open>_handle_playing(dt, events)\<close>; \<open>mouse_x\<close> is what \<^verbatim>\<open>pygame.mouse.get_pos()\<close> returns.\<close>

definition handle_playing ::
  "(Rect \<Rightarrow> Rect \<Rightarrow> bool) \<Rightarrow> real \<Rightarrow> Event list \<Rightarrow> int \<Rightarrow> ArkanoidGame
     \<Rightarrow> error + ArkanoidGame" where
  "handle_playing cr dt events mouse_x g =
     (let g1 = g\<lparr>paddle := Paddle_update (paddle g) dt mouse_x (width g)\<rparr>
      in case balls_loop cr dt [] (balls g1) g1 of
           Inl e \<Rightarrow> Inl e
         | Inr g2 \<Rightarrow>
             (let g3 = g2\<lparr>particles := update_particles dt (particles g2)\<rparr>;
                  g4 = handle_powerups cr dt g3;
                  g5 = check_victory g4
              in Inr (check_pause events g5)))"

definition handle_menu :: "Event list \<Rightarrow> ArkanoidGame \<Rightarrow> ArkanoidGame" where
  "handle_menu events g =
     foldl (\<lambda>g' e. if e = MOUSEBUTTONDOWN
                    then generate_level (level g') (g'\<lparr>state := PLAYING\<rparr>) else g') g events"

definition handle_paused :: "Event list \<Rightarrow> ArkanoidGame \<Rightarrow> ArkanoidGame" where
  "handle_paused events g =
     foldl (\<lambda>g' e. if e = KEYDOWN K_ESCAPE then g'\<lparr>state := PLAYING\<rparr> else g') g events"

text \<open>\<^verbatim>\<open>_handle_game_over\<close> and \<^verbatim>\<open>_handle_victory\<close> differ in what they draw only: a click
  runs \<^verbatim>\<open>self.__init__(self.width, self.height)\<close>.\<close>

definition handle_game_over :: "Event list \<Rightarrow> ArkanoidGame \<Rightarrow> ArkanoidGame" where
  "handle_game_over events g =
     foldl (\<lambda>g' e. if e = MOUSEBUTTONDOWN
                    then ArkanoidGame_init (width g') (height g') (random_state g') else g')
       g events"

definition handle_victory :: "Event list \<Rightarrow> ArkanoidGame \<Rightarrow> ArkanoidGame" where
  "handle_victory events g = handle_game_over events g"

text \<open>One pass of the loop of \<^verbatim>\<open>run\<close>: the handler of the current state, on the frame's
  \<open>dt\<close>, events and mouse position.\<close>

definition frame ::
  "(Rect \<Rightarrow> Rect \<Rightarrow> bool) \<Rightarrow> real \<Rightarrow> Event list \<Rightarrow> int \<Rightarrow> ArkanoidGame
     \<Rightarrow> error + ArkanoidGame" where
  "frame cr dt events mouse_x g =
     (case state g of
        MENU \<Rightarrow> Inr (handle_menu events g)
      | PLAYING \<Rightarrow> handle_playing cr dt events mouse_x g
      | PAUSED \<Rightarrow> Inr (handle_paused events g)
      | GAME_OVER \<Rightarrow> Inr (handle_game_over events g)
      | VICTORY \<Rightarrow> Inr (handle_victory events g))"

text \<open>
  The states of a session: \<^verbatim>\<open>main\<close> constructs the game and \<^verbatim>\<open>run\<close> repeats the frame,
  with \<open>dt = clock.tick(60) / 1000\<close>, which is not negative. A frame that raises ends the
  session.
\<close>

inductive reachable :: "(Rect \<Rightarrow> Rect \<Rightarrow> bool) \<Rightarrow> ArkanoidGame \<Rightarrow> bool"
  for cr :: "Rect \<Rightarrow> Rect \<Rightarrow> bool" where
  reachable_init: "reachable cr (ArkanoidGame_init w h r)"
| reachable_frame:
    "reachable cr g \<Longrightarrow> 0 \<le> dt \<Longrightarrow> frame cr dt events mouse_x g = Inr g'
       \<Longrightarrow> reachable cr g'"

section \<open>Concrete inputs and auxiliary predicates\<close>

text \<open>
  The states and inputs on which the properties below are evaluated, and the predicates
  their proofs use. \<open>aabb\<close> is an overlap test to instantiate \<open>cr\<close> with: two axis-aligned
  rectangles of positive size overlap when each begins before the other ends, on both
  axes.
\<close>

definition aabb :: "Rect \<Rightarrow> Rect \<Rightarrow> bool" where
  "aabb a b =
     (rect_left a < rect_left b + rect_w b \<and> rect_left b < rect_left a + rect_w a \<and>
      rect_top a < rect_top b + rect_h b \<and> rect_top b < rect_top a + rect_h a)"

text \<open>A ball in the top-left corner of the field, moving up and to the left.\<close>

definition corner_ball :: Ball where
  "corner_ball =
     \<lparr>ball_pos = vec 5 5, ball_vel = vec (- 200) (- 300), ball_radius = 8,
      ball_trail = [], ball_speed_multiplier = 1\<rparr>"

text \<open>A small game in the Playing state: one ball just above the paddle, two bricks.\<close>

definition game0 :: ArkanoidGame where
  "game0 =
     \<lparr>width = 800, height = 600, state = PLAYING, score = 0, lives = 3, level = 1,
      paddle = Paddle_init 350 550,
      balls = [\<lparr>ball_pos = vec 400 545, ball_vel = vec 0 300, ball_radius = 8,
                ball_trail = [], ball_speed_multiplier = 1\<rparr>],
      bricks = [\<lparr>brick_x = 10, brick_y = 60, brick_width = 75, brick_height = 25,
                 brick_health = 2, brick_max_health = 2, brick_points = 200,
                 brick_powerup = None\<rparr>,
                \<lparr>brick_x = 88, brick_y = 60, brick_width = 75, brick_height = 25,
                 brick_health = 1, brick_max_health = 1, brick_points = 100,
                 brick_powerup = Some EXTRA_LIFE\<rparr>],
      particles = [], powerups = [], random_state = (\<lambda>n. 0)\<rparr>"

text \<open>A random source whose every raw draw is \<open>2^52\<close>: \<^verbatim>\<open>random.random()\<close> is then
  always \<open>0.5\<close>, so every cell of a level keeps its brick and no brick has a power-up.\<close>

definition half_rng :: rng where "half_rng = (\<lambda>n. 2 ^ 52)"

text \<open>\<open>game0\<close> with the bricks cleared, at level 5 and at level 1.\<close>

definition level5_cleared :: ArkanoidGame where
  "level5_cleared = game0\<lparr>level := 5, bricks := []\<rparr>"

definition level1_cleared :: ArkanoidGame where
  "level1_cleared = game0\<lparr>bricks := [], random_state := half_rng\<rparr>"

text \<open>What \<^verbatim>\<open>_generate_level\<close> makes of the cell \<open>c = (column, row)\<close> when it keeps it.\<close>

definition cell_brick :: "int \<Rightarrow> nat \<times> nat \<Rightarrow> Brick \<Rightarrow> bool" where
  "cell_brick rows c b =
     (brick_x b = real (fst c) * 78 + 10 \<and> brick_y b = real (snd c) * 30 + 60 \<and>
      brick_health b = min (rows - int (snd c)) 5 \<and> brick_max_health b = brick_health b \<and>
      brick_points b = brick_health b * 100 \<and> brick_width b = 75 \<and> brick_height b = 25)"





text \<open>\<open>game0\<close> with the paddle lowered to the bottom edge and two falling power-ups: with
  \<open>dt = 1/10\<close> the first one leaves the field while its rectangle overlaps the paddle,
  the second stays in the field and overlaps nothing.\<close>

definition exit_game :: ArkanoidGame where
  "exit_game =
     game0\<lparr>paddle := (paddle game0)\<lparr>paddle_y := 595\<rparr>,
           powerups := [PowerUp_init 400 590 EXTRA_LIFE, PowerUp_init 400 500 EXPAND_PADDLE]\<rparr>"

text \<open>The health of a brick in play: at least 1 and at most the health it was made
  with.\<close>

definition brick_ok :: "Brick \<Rightarrow> bool" where
  "brick_ok b = (1 \<le> brick_health b \<and> brick_health b \<le> brick_max_health b)"

text \<open>The session on \<open>half_rng\<close> in an 800 by 600 field, after the click that starts it.\<close>

definition started_game :: ArkanoidGame where
  "started_game = handle_menu [MOUSEBUTTONDOWN] (ArkanoidGame_init 800 600 half_rng)"

text \<open>The ball of \<open>started_game\<close> as launched, and after one and two frames of \<open>dt = 2\<close>: it
  flies to the top-left, over the left wall, and comes down left of the field.\<close>

definition launch_ball :: Ball where
  "launch_ball =
     \<lparr>ball_pos = vec 400 520, ball_vel = vec (- 200) (- 300), ball_radius = 8,
      ball_trail = [], ball_speed_multiplier = 1\<rparr>"

definition up_ball :: Ball where
  "up_ball = launch_ball\<lparr>ball_pos := vec 0 (- 80), ball_vel := vec (- 200) 300,
                         ball_trail := [(0, - 80)]\<rparr>"

definition down_ball :: Ball where
  "down_ball = up_ball\<lparr>ball_pos := vec (- 400) 520, ball_vel := vec 200 300,
                       ball_trail := [(0, - 80), (- 400, 520)]\<rparr>"

text \<open>The part of \<open>started_game\<close> that such frames leave alone.\<close>

definition quiet :: "ArkanoidGame \<Rightarrow> bool" where
  "quiet g =
     (width g = 800 \<and> height g = 600 \<and> paddle g = Paddle_init 350 550 \<and>
      particles g = [] \<and> powerups g = [] \<and> bricks g = bricks started_game \<and>
      random_state g = half_rng)"

text \<open>\<open>game0\<close> on its last life, the ball one unit above the bottom edge and moving down.\<close>

definition last_life_game :: ArkanoidGame where
  "last_life_game =
     game0\<lparr>lives := 1,
           balls := [\<lparr>ball_pos = vec 400 599, ball_vel = vec 200 300, ball_radius = 8,
                     ball_trail = [], ball_speed_multiplier = 1\<rparr>]\<rparr>"

section \<open>Properties\<close>

subsection \<open>Ball.update and the walls\<close>

text \<open>
  The keys of \<^verbatim>\<open>collision_handlers\<close> are booleans, so the dict holds at most two items:
  one for True and one for False, each with the handler of the last condition that had
  that value.
\<close>

lemma collision_handlers_cases:
  "collision_handlers p rad w =
     (let c1 = vec_x p - rad \<le> 0; c2 = vec_x p + rad \<ge> real_of_int w;
          c3 = vec_y p - rad \<le> 0
      in if c1 = c2 \<and> c2 = c3 then [(c1, Top_wall)]
         else if c1 = c2 then [(c1, Right_wall), (c3, Top_wall)]
         else if c1 = c3 then [(c1, Top_wall), (c2, Right_wall)]
         else [(c1, Left_wall), (c2, Top_wall)])"
  by (auto simp: collision_handlers_def dict_literal_def Let_def)

text \<open>Hence exactly one handler runs when some condition holds: the one of the last
  true condition, in the order left, right, top.\<close>

lemma run_collision_handlers:
  "run_handlers (collision_handlers p rad w) v =
     (if vec_y p - rad \<le> 0 then run_handler Top_wall v
      else if vec_x p + rad \<ge> real_of_int w then run_handler Right_wall v
      else if vec_x p - rad \<le> 0 then run_handler Left_wall v
      else v)"
  by (auto simp: collision_handlers_cases run_handlers_def Let_def)

text \<open>
  Claim C1 says that the three wall conditions are handled independently, so that a ball
  at the left wall leaves \<^verbatim>\<open>update\<close> with \<open>velocity.x \<ge> 0\<close> also when it is at the top wall
  in the same frame. On \<open>corner_ball\<close> with \<open>dt = 1/100\<close> in an 800 by 600 field the code
  does otherwise: the ball is at the left wall before and after the move
  (\<open>x - r \<le> 0\<close>) and at the top wall after it, only the top handler runs, and the ball
  keeps its leftward velocity \<open>-200\<close>.
\<close>

theorem top_left_corner_keeps_leftward_velocity:
  "(let (b', lost) = Ball_update corner_ball (1 / 100) 800 600
    in vec_x (ball_pos corner_ball) - ball_radius corner_ball \<le> 0
       \<and> ball_pos b' = vec 3 2
       \<and> vec_x (ball_pos b') - ball_radius b' \<le> 0
       \<and> vec_y (ball_pos b') - ball_radius b' \<le> 0
       \<and> ball_vel b' = vec (- 200) 300
       \<and> vec_x (ball_vel b') < 0
       \<and> \<not> lost)"
  by (simp add: Ball_update_def corner_ball_def vec_def vec_add_def vec_mul_def
      run_collision_handlers)

subsection \<open>Reflection in exact arithmetic\<close>

text \<open>
  The coordinates of this model are reals. Over the reals a reflection about a vector of
  length 1 keeps the magnitude, \<open>(sin t, -cos t)\<close> has length 1, and normalising a vector
  and scaling it by its own magnitude gives it back. These are identities of exact
  arithmetic only. The source computes with \<^verbatim>\<open>float\<close>, where \<^verbatim>\<open>math.sin\<close>,
  \<^verbatim>\<open>math.cos\<close>, \<^verbatim>\<open>math.sqrt\<close>, the squares and the products round: the three lemmas
  say nothing about whether a ball has the same speed, as a double, before and after a
  paddle bounce, and no property of the rounded values is stated in this development.
\<close>

lemma magnitude_reflect:
  assumes "magnitude n = 1"
  shows "magnitude (reflect v n) = magnitude v"
proof -
  have n1: "(vec_x n)\<^sup>2 + (vec_y n)\<^sup>2 = 1"
    using assms by (simp add: magnitude_def)
  define d where "d = vec_x v * vec_x n + vec_y v * vec_y n"
  have "(vec_x v - 2 * d * vec_x n)\<^sup>2 + (vec_y v - 2 * d * vec_y n)\<^sup>2
        = (vec_x v)\<^sup>2 + (vec_y v)\<^sup>2 - 4 * d * d + 4 * d\<^sup>2 * ((vec_x n)\<^sup>2 + (vec_y n)\<^sup>2)"
    unfolding d_def by (simp add: power2_eq_square algebra_simps)
  also have "\<dots> = (vec_x v)\<^sup>2 + (vec_y v)\<^sup>2"
    unfolding n1 by (simp add: power2_eq_square)
  finally show ?thesis
    by (simp add: magnitude_def reflect_def vec_def Let_def d_def)
qed

lemma renormalize_rescale: "vec_mul (vec_normalize v) (magnitude v) = v"
proof (cases "magnitude v > 0")
  case True
  then show ?thesis
    by (simp add: vec_normalize_def magnitude_def vec_mul_def vec_def Let_def)
next
  case False
  have "magnitude v \<ge> 0" by (simp add: magnitude_def)
  with False have z: "magnitude v = 0" by simp
  then have "(vec_x v)\<^sup>2 + (vec_y v)\<^sup>2 = 0"
    by (simp add: magnitude_def)
  then have "vec_x v = 0" "vec_y v = 0"
    by simp_all
  then show ?thesis
    by (simp add: vec_normalize_def magnitude_def vec_mul_def vec_def Let_def)
qed

lemma magnitude_sin_cos: "magnitude (vec (sin t) (- cos t)) = 1"
  by (simp add: magnitude_def vec_def)

subsection \<open>The power-up dispatcher\<close>

lemma Ball_init_eq:
  "Ball_init a b r =
     (\<lparr>ball_pos = vec a b, ball_vel = vec (if r 0 mod 2 = 0 then - 200 else 200) (- 300),
       ball_radius = 8, ball_trail = [], ball_speed_multiplier = 1\<rparr>, rng_next r)"
  by (simp add: Ball_init_def random_choice_launch_def)

text \<open>
  Claim C6. \<^verbatim>\<open>_apply_powerup\<close> changes exactly what the kind names and adds 50 to the
  score: Expand Paddle sets the width to \<open>min (width + 30) 200\<close>; Multi-Ball appends two
  new balls at the first ball's position (each takes one draw of the random source for
  its launch direction) and does nothing on an empty ball list; Slow Ball sets the speed
  multiplier of every ball to \<open>0.7\<close>; Sticky Paddle sets the flag; Extra Life adds a
  life; Laser changes nothing else.
\<close>

theorem apply_powerup_effects:
  "apply_powerup EXPAND_PADDLE g =
     g\<lparr>paddle := (paddle g)\<lparr>paddle_width := min (paddle_width (paddle g) + 30) 200\<rparr>,
       score := score g + 50\<rparr>
   \<and> (balls g = [] \<longrightarrow> apply_powerup MULTI_BALL g = g\<lparr>score := score g + 50\<rparr>)
   \<and> (balls g \<noteq> [] \<longrightarrow>
        (\<exists>n1 n2. apply_powerup MULTI_BALL g =
            g\<lparr>balls := balls g @ [n1, n2],
              random_state := rng_next (rng_next (random_state g)),
              score := score g + 50\<rparr>
          \<and> ball_pos n1 = ball_pos (hd (balls g)) \<and> ball_pos n2 = ball_pos (hd (balls g))
          \<and> n1 = fst (Ball_init (vec_x (ball_pos (hd (balls g)))) (vec_y (ball_pos (hd (balls g))))
                        (random_state g))
          \<and> n2 = fst (Ball_init (vec_x (ball_pos (hd (balls g)))) (vec_y (ball_pos (hd (balls g))))
                        (rng_next (random_state g)))))
   \<and> apply_powerup SLOW_BALL g =
       g\<lparr>balls := map (\<lambda>b. b\<lparr>ball_speed_multiplier := 7 / 10\<rparr>) (balls g),
         score := score g + 50\<rparr>
   \<and> apply_powerup STICKY_PADDLE g =
       g\<lparr>paddle := (paddle g)\<lparr>paddle_sticky := True\<rparr>, score := score g + 50\<rparr>
   \<and> apply_powerup EXTRA_LIFE g = g\<lparr>lives := lives g + 1, score := score g + 50\<rparr>
   \<and> apply_powerup LASER g = g\<lparr>score := score g + 50\<rparr>
   \<and> score (apply_powerup t g) = score g + 50"
proof -
  have multi: "balls g \<noteq> [] \<Longrightarrow> apply_powerup MULTI_BALL g =
            g\<lparr>balls := balls g @
                 [fst (Ball_init (vec_x (ball_pos (hd (balls g)))) (vec_y (ball_pos (hd (balls g))))
                        (random_state g)),
                  fst (Ball_init (vec_x (ball_pos (hd (balls g)))) (vec_y (ball_pos (hd (balls g))))
                        (rng_next (random_state g)))],
              random_state := rng_next (rng_next (random_state g)),
              score := score g + 50\<rparr>"
    by (cases "balls g") (simp_all add: apply_powerup_def Ball_init_eq)
  have sc: "score (apply_powerup t g) = score g + 50"
    by (cases t; cases "balls g") (simp_all add: apply_powerup_def Ball_init_eq)
  have pos: "\<And>a b r. ball_pos (fst (Ball_init a b r)) = vec a b"
    by (simp add: Ball_init_eq)
  have v: "\<And>u. vec (vec_x u) (vec_y u) = u"
    by (simp add: vec_def)
  show ?thesis
    using multi sc by (auto simp: apply_powerup_def pos v)
qed

theorem apply_powerup_effects_witness:
  "balls game0 \<noteq> []
   \<and> balls (game0\<lparr>balls := []\<rparr>) = []
   \<and> length (balls (apply_powerup MULTI_BALL game0)) = 3
   \<and> map ball_pos (balls (apply_powerup MULTI_BALL game0)) = [vec 400 545, vec 400 545, vec 400 545]
   \<and> apply_powerup MULTI_BALL (game0\<lparr>balls := []\<rparr>) = game0\<lparr>balls := [], score := 50\<rparr>
   \<and> paddle_width (paddle (apply_powerup EXPAND_PADDLE game0)) = 130
   \<and> lives (apply_powerup EXTRA_LIFE game0) = 4
   \<and> score (apply_powerup LASER game0) = 50"
proof -
  have ne: "balls game0 \<noteq> []" by (simp add: game0_def)
  have e: "balls (game0\<lparr>balls := []\<rparr>) = []" by simp
  note T = apply_powerup_effects [of game0 LASER]
  note E = apply_powerup_effects [of "game0\<lparr>balls := []\<rparr>" LASER]
  from T ne obtain n1 n2 where
    m: "apply_powerup MULTI_BALL game0 =
            game0\<lparr>balls := balls game0 @ [n1, n2],
              random_state := rng_next (rng_next (random_state game0)),
              score := score game0 + 50\<rparr>"
    and p: "ball_pos n1 = ball_pos (hd (balls game0))" "ball_pos n2 = ball_pos (hd (balls game0))"
    by blast
  have "length (balls (apply_powerup MULTI_BALL game0)) = 3"
    "map ball_pos (balls (apply_powerup MULTI_BALL game0)) = [vec 400 545, vec 400 545, vec 400 545]"
    unfolding m using p by (simp_all add: game0_def)
  moreover from E e have "apply_powerup MULTI_BALL (game0\<lparr>balls := []\<rparr>) = game0\<lparr>balls := [], score := 50\<rparr>"
    by (simp add: game0_def)
  moreover from T have "paddle_width (paddle (apply_powerup EXPAND_PADDLE game0)) = 130"
    "lives (apply_powerup EXTRA_LIFE game0) = 4" "score (apply_powerup LASER game0) = 50"
    by (simp_all add: game0_def Paddle_init_def)
  ultimately show ?thesis using ne e by blast
qed

subsection \<open>The level generator\<close>

lemma Brick_init_fields:
  "brick_x (fst (Brick_init a b h r)) = a"
  "brick_y (fst (Brick_init a b h r)) = b"
  "brick_width (fst (Brick_init a b h r)) = 75"
  "brick_height (fst (Brick_init a b h r)) = 25"
  "brick_health (fst (Brick_init a b h r)) = h"
  "brick_max_health (fst (Brick_init a b h r)) = h"
  "brick_points (fst (Brick_init a b h r)) = h * 100"
  by (simp_all add: Brick_init_def Let_def split_def)

lemma generate_cells_bricks:
  "b \<in> set (fst (generate_cells rows cs r)) \<Longrightarrow> \<exists>c \<in> set cs. cell_brick rows c b"
proof (induction cs arbitrary: r)
  case Nil
  then show ?case by simp
next
  case (Cons c cs)
  obtain x y where c: "c = (x, y)" by (cases c)
  show ?case
  proof (cases "fst (random_random r) > 1 / 10")
    case True
    let ?bi = "Brick_init (real x * 78 + 10) (real y * 30 + 60) (min (rows - int y) 5)
                 (snd (random_random r))"
    from Cons.prems True c
    have "b = fst ?bi \<or> b \<in> set (fst (generate_cells rows cs (snd ?bi)))"
      by (simp add: split_def Let_def)
    then show ?thesis
    proof
      assume "b = fst ?bi"
      then have "cell_brick rows c b"
        by (simp add: cell_brick_def c Brick_init_fields)
      then show ?thesis by auto
    next
      assume "b \<in> set (fst (generate_cells rows cs (snd ?bi)))"
      from Cons.IH [OF this] show ?thesis by auto
    qed
  next
    case False
    with Cons.prems c
    have "b \<in> set (fst (generate_cells rows cs (snd (random_random r))))"
      by (simp add: split_def Let_def)
    from Cons.IH [OF this] show ?thesis by auto
  qed
qed


lemma set_level_cells:
  "set (level_cells rows cols) = {c. fst c < nat cols \<and> snd c < nat rows}"
  by (auto simp: level_cells_def)

lemma bricks_generate_level:
  "bricks (generate_level n g)
     = fst (generate_cells (min (5 + n) 10) (level_cells (min (5 + n) 10) 10) (random_state g))"
  by (simp add: generate_level_def Let_def split_def)









text \<open>On the source \<open>half_rng\<close> every cell is kept and no brick has a power-up.\<close>

lemma random_random_half_rng: "random_random half_rng = (1 / 2, half_rng)"
  by (simp add: random_random_def half_rng_def rng_next_def)

lemma generate_cells_half_rng:
  "generate_cells rows cs half_rng =
     (map (\<lambda>c. \<lparr>brick_x = real (fst c) * 78 + 10, brick_y = real (snd c) * 30 + 60,
                brick_width = 75, brick_height = 25,
                brick_health = min (rows - int (snd c)) 5,
                brick_max_health = min (rows - int (snd c)) 5,
                brick_points = min (rows - int (snd c)) 5 * 100,
                brick_powerup = None\<rparr>) cs, half_rng)"
  by (induction cs) (auto simp: random_random_half_rng Brick_init_def)



text \<open>
  Claim C9 says that a level whose row count is not positive is rejected with a
  configuration error. \<^verbatim>\<open>_generate_level\<close> has no such check and no way to signal one:
  for level \<open>-5\<close> the row count is 0 and the bricks of \<open>game0\<close> are replaced by the empty
  list.
\<close>

theorem generate_level_no_rows_counterexample:
  "generate_level (- 5) game0 = game0\<lparr>bricks := []\<rparr> \<and> bricks game0 \<noteq> []"
  by (simp add: generate_level_def level_cells_def game0_def)

text \<open>
  Claim C9, amended: for every level index whose row count \<open>min (5 + n) 10\<close> is not
  positive, that is \<open>n \<le> -5\<close>, the generator returns normally with an empty brick list
  and changes nothing else.
\<close>

theorem generate_level_without_rows:
  "5 + n \<le> 0 \<Longrightarrow> generate_level n g = g\<lparr>bricks := []\<rparr>"
  by (simp add: generate_level_def level_cells_def min_def)

theorem generate_level_without_rows_witness:
  "5 + (- 7 :: int) \<le> 0 \<and> generate_level (- 7) game0 = game0\<lparr>bricks := []\<rparr>"
  using generate_level_without_rows [of "- 7" game0] by simp

subsection \<open>The clear check\<close>

text \<open>
  Claim C3 reads: when all bricks are cleared and the level exceeds 5 the state becomes
  Victory, otherwise the level is incremented, the bricks regenerated and one ball
  respawned. The code increments first and compares afterwards: \<open>level5_cleared\<close> is at
  level 5, which does not exceed 5, and the clear check takes it to Victory at level 6
  with no new bricks and the balls as they were.
\<close>

theorem clear_at_level_5_counterexample:
  "bricks level5_cleared = [] \<and> \<not> level level5_cleared > 5
   \<and> check_victory level5_cleared = level5_cleared\<lparr>level := 6, state := VICTORY\<rparr>
   \<and> state (check_victory level5_cleared) = VICTORY
   \<and> bricks (check_victory level5_cleared) = []
   \<and> balls (check_victory level5_cleared) = balls level5_cleared"
  by (simp add: check_victory_def level5_cleared_def game0_def)

text \<open>
  Claim C3, amended: with bricks left the clear check does nothing; with none left it
  increments the level, and then, if the incremented level exceeds 5, it sets the state
  to Victory and changes nothing else, otherwise it generates the bricks of the new
  level and replaces all balls by one fresh ball at \<open>(width // 2, height - 80)\<close>, the
  state staying as it was.
\<close>

theorem check_victory_cases:
  "(bricks g \<noteq> [] \<longrightarrow> check_victory g = g)
   \<and> (bricks g = [] \<and> level g + 1 > 5 \<longrightarrow>
        check_victory g = g\<lparr>level := level g + 1, state := VICTORY\<rparr>)
   \<and> (bricks g = [] \<and> level g + 1 \<le> 5 \<longrightarrow>
        check_victory g =
          (generate_level (level g + 1) (g\<lparr>level := level g + 1\<rparr>))
            \<lparr>balls := [fst (Ball_init (real_of_int (width g div 2)) (real_of_int (height g - 80))
                     (random_state (generate_level (level g + 1) (g\<lparr>level := level g + 1\<rparr>))))],
             random_state :=
               snd (Ball_init (real_of_int (width g div 2)) (real_of_int (height g - 80))
                     (random_state (generate_level (level g + 1) (g\<lparr>level := level g + 1\<rparr>))))\<rparr>
        \<and> level (check_victory g) = level g + 1
        \<and> state (check_victory g) = state g
        \<and> map ball_pos (balls (check_victory g))
            = [vec (real_of_int (width g div 2)) (real_of_int (height g - 80))])"
  by (simp add: check_victory_def Let_def split_def generate_level_def Ball_init_eq)

theorem check_victory_cases_witness:
  "bricks game0 \<noteq> [] \<and> check_victory game0 = game0
   \<and> bricks level5_cleared = [] \<and> level level5_cleared + 1 > 5
   \<and> check_victory level5_cleared = level5_cleared\<lparr>level := 6, state := VICTORY\<rparr>
   \<and> bricks level1_cleared = [] \<and> level level1_cleared + 1 \<le> 5
   \<and> level (check_victory level1_cleared) = 2
   \<and> state (check_victory level1_cleared) = PLAYING
   \<and> map ball_pos (balls (check_victory level1_cleared)) = [vec 400 520]"
proof -
  have a: "bricks game0 \<noteq> []" by (simp add: game0_def)
  have b: "bricks level5_cleared = [] \<and> level level5_cleared + 1 > 5"
    by (simp add: level5_cleared_def game0_def)
  have c: "bricks level1_cleared = [] \<and> level level1_cleared + 1 \<le> 5"
    by (simp add: level1_cleared_def game0_def)
  from a check_victory_cases [of game0] have a': "check_victory game0 = game0"
    by blast
  from b check_victory_cases [of level5_cleared]
  have b': "check_victory level5_cleared = level5_cleared\<lparr>level := 6, state := VICTORY\<rparr>"
    by (simp add: level5_cleared_def game0_def)
  from c check_victory_cases [of level1_cleared]
  have "level (check_victory level1_cleared) = level level1_cleared + 1"
    "state (check_victory level1_cleared) = state level1_cleared"
    "map ball_pos (balls (check_victory level1_cleared))
       = [vec (real_of_int (width level1_cleared div 2))
              (real_of_int (height level1_cleared - 80))]"
    by blast+
  then have c': "level (check_victory level1_cleared) = 2
            \<and> state (check_victory level1_cleared) = PLAYING
            \<and> map ball_pos (balls (check_victory level1_cleared)) = [vec 400 520]"
    by (simp add: level1_cleared_def game0_def)
  from a a' b b' c c' show ?thesis by simp
qed

subsection \<open>Brick collisions\<close>

lemma create_particles_fields:
  "width (create_particles a b n g) = width g"
  "height (create_particles a b n g) = height g"
  "state (create_particles a b n g) = state g"
  "score (create_particles a b n g) = score g"
  "lives (create_particles a b n g) = lives g"
  "level (create_particles a b n g) = level g"
  "paddle (create_particles a b n g) = paddle g"
  "balls (create_particles a b n g) = balls g"
  "bricks (create_particles a b n g) = bricks g"
  "powerups (create_particles a b n g) = powerups g"
  by (simp_all add: create_particles_def split_def Let_def)

lemma destroy_brick_fields:
  "width (destroy_brick b g) = width g"
  "height (destroy_brick b g) = height g"
  "state (destroy_brick b g) = state g"
  "lives (destroy_brick b g) = lives g"
  "level (destroy_brick b g) = level g"
  "paddle (destroy_brick b g) = paddle g"
  "balls (destroy_brick b g) = balls g"
  "bricks (destroy_brick b g) = bricks g"
  "score (destroy_brick b g) = score g + brick_points b"
  "powerups (destroy_brick b g) =
     (case brick_powerup b of
        Some t \<Rightarrow> powerups g @ [PowerUp_init (brick_center_x b) (brick_center_y b) t]
      | None \<Rightarrow> powerups g)"
  by (simp_all add: destroy_brick_def Let_def create_particles_fields split: option.split)


lemma brick_collisions_no_hit:
  "\<forall>p \<in> set bs. \<not> cr (brick_rect p) brect \<Longrightarrow>
     brick_collisions cr brect seen bs ball g = (ball, g)"
  by (induction bs arbitrary: seen) simp_all

lemma paddle_collision_fields:
  assumes "paddle_collision cr brect ball g = Inr (ball1, g1)"
  shows "bricks g1 = bricks g" "score g1 = score g" "powerups g1 = powerups g"
    "balls g1 = balls g" "lives g1 = lives g" "level g1 = level g" "state g1 = state g"
    "paddle g1 = paddle g" "width g1 = width g" "height g1 = height g"
  using assms
  by (auto simp: paddle_collision_def Let_def create_particles_fields
      split: if_splits sum.splits)




subsection \<open>Power-ups leaving the field\<close>

lemma create_particles_powerups_update:
  "create_particles a b n (g\<lparr>powerups := ps\<rparr>) = (create_particles a b n g)\<lparr>powerups := ps\<rparr>"
  by (simp add: create_particles_def split_def Let_def)

lemma effect_powerups_update:
  "effect t (g\<lparr>powerups := ps\<rparr>) = (effect t g)\<lparr>powerups := ps\<rparr>"
  by (cases t) (simp_all add: split_def Let_def split: list.split)

lemma apply_powerup_powerups_update:
  "apply_powerup t (g\<lparr>powerups := ps\<rparr>) = (apply_powerup t g)\<lparr>powerups := ps\<rparr>"
  by (simp add: apply_powerup_def Let_def effect_powerups_update)

lemma effect_fields:
  "height (effect t g) = height g" "width (effect t g) = width g"
  "powerups (effect t g) = powerups g" "bricks (effect t g) = bricks g"
  "state (effect t g) = state g" "level (effect t g) = level g"
  by (cases t; simp add: split_def Let_def split: list.split)+

lemma apply_powerup_fields:
  "height (apply_powerup t g) = height g" "width (apply_powerup t g) = width g"
  "powerups (apply_powerup t g) = powerups g" "bricks (apply_powerup t g) = bricks g"
  "state (apply_powerup t g) = state g" "level (apply_powerup t g) = level g"
  by (simp_all add: apply_powerup_def Let_def effect_fields)

lemma powerups_loop_exit_step:
  "snd (PowerUp_update p dt (height g)) \<Longrightarrow>
     powerups_loop cr dt prect kept (p # rest) g
       = powerups_loop cr dt prect kept rest (g\<lparr>powerups := kept @ rest\<rparr>)"
  by (simp add: split_def)

lemma powerups_loop_filter:
  "height g = h \<Longrightarrow> powerups g = kept @ ps \<Longrightarrow>
     powerups_loop cr dt prect kept ps g =
       powerups_loop cr dt prect kept (filter (\<lambda>p. \<not> snd (PowerUp_update p dt h)) ps)
         (g\<lparr>powerups := kept @ filter (\<lambda>p. \<not> snd (PowerUp_update p dt h)) ps\<rparr>)"
proof (induction ps arbitrary: kept g)
  case Nil
  then show ?case by simp
next
  case (Cons p ps)
  let ?f = "filter (\<lambda>p. \<not> snd (PowerUp_update p dt h))"
  let ?p' = "fst (PowerUp_update p dt h)"
  show ?case
  proof (cases "snd (PowerUp_update p dt h)")
    case True
    with Cons.prems Cons.IH [of "g\<lparr>powerups := kept @ ps\<rparr>" kept]
    show ?thesis by (simp add: split_def)
  next
    case out: False
    show ?thesis
    proof (cases "cr prect (powerup_rect ?p')")
      case True
      let ?g3 = "create_particles (vec_x (powerup_pos ?p')) (vec_y (powerup_pos ?p')) 15
                   ((apply_powerup (powerup_type ?p') g)\<lparr>powerups := kept @ ps\<rparr>)"
      have "height ?g3 = h" "powerups ?g3 = kept @ ps"
        using Cons.prems by (simp_all add: create_particles_fields apply_powerup_fields)
      from Cons.IH [OF this] out True Cons.prems(1)
      show ?thesis
        by (simp add: split_def Let_def create_particles_powerups_update
            apply_powerup_powerups_update)
    next
      case False
      with out Cons.prems Cons.IH [of "g\<lparr>powerups := kept @ ?p' # ps\<rparr>" "kept @ [?p']"]
      show ?thesis by (simp add: split_def)
    qed
  qed
qed

lemma powerups_loop_cong:
  "height g = h \<Longrightarrow>
   \<forall>p \<in> set ps. \<not> snd (PowerUp_update p dt h) \<longrightarrow>
     cr prect (powerup_rect (fst (PowerUp_update p dt h)))
       = cr' prect (powerup_rect (fst (PowerUp_update p dt h))) \<Longrightarrow>
   powerups_loop cr dt prect kept ps g = powerups_loop cr' dt prect kept ps g"
proof (induction ps arbitrary: kept g)
  case Nil
  then show ?case by simp
next
  case (Cons p ps)
  then show ?case
    by (simp add: split_def Let_def create_particles_fields apply_powerup_fields)
qed

text \<open>
  Claim C10. In \<^verbatim>\<open>_handle_powerups\<close> a power-up whose position after the fall step is
  below the field (\<open>y > height\<close>) is removed and the loop goes on with the next one,
  whatever the overlap test says of it. So the whole pass gives the same game as the
  pass on the power-ups that stay in the field: no effect and no score for the others.
  In particular, when every power-up leaves the field only the power-up list changes;
  and two overlap tests that agree on the power-ups that stay in the field give the same
  pass, that is, the test is not consulted for the others.
\<close>

theorem exit_before_collection:
  "(snd (PowerUp_update p dt (height g)) \<longrightarrow>
      powerups_loop cr dt prect kept (p # rest) g
        = powerups_loop cr dt prect kept rest (g\<lparr>powerups := kept @ rest\<rparr>))
   \<and> handle_powerups cr dt g =
       handle_powerups cr dt
         (g\<lparr>powerups := filter (\<lambda>p. \<not> snd (PowerUp_update p dt (height g))) (powerups g)\<rparr>)
   \<and> ((\<forall>p \<in> set (powerups g). snd (PowerUp_update p dt (height g))) \<longrightarrow>
        handle_powerups cr dt g = g\<lparr>powerups := []\<rparr>)
   \<and> ((\<forall>p \<in> set (powerups g). \<not> snd (PowerUp_update p dt (height g)) \<longrightarrow>
          cr (paddle_rect (paddle g)) (powerup_rect (fst (PowerUp_update p dt (height g))))
            = cr' (paddle_rect (paddle g)) (powerup_rect (fst (PowerUp_update p dt (height g)))))
        \<longrightarrow> handle_powerups cr dt g = handle_powerups cr' dt g)"
proof (intro conjI impI)
  assume "snd (PowerUp_update p dt (height g))"
  then show "powerups_loop cr dt prect kept (p # rest) g
        = powerups_loop cr dt prect kept rest (g\<lparr>powerups := kept @ rest\<rparr>)"
    by (rule powerups_loop_exit_step)
next
  show f: "handle_powerups cr dt g =
       handle_powerups cr dt
         (g\<lparr>powerups := filter (\<lambda>p. \<not> snd (PowerUp_update p dt (height g))) (powerups g)\<rparr>)"
    using powerups_loop_filter [of g "height g" "[]" "powerups g" cr dt "paddle_rect (paddle g)"]
    by (simp add: handle_powerups_def)
  assume "\<forall>p \<in> set (powerups g). snd (PowerUp_update p dt (height g))"
  then have "filter (\<lambda>p. \<not> snd (PowerUp_update p dt (height g))) (powerups g) = []"
    by (simp add: filter_empty_conv)
  with f show "handle_powerups cr dt g = g\<lparr>powerups := []\<rparr>"
    by (simp add: handle_powerups_def)
next
  assume "\<forall>p \<in> set (powerups g). \<not> snd (PowerUp_update p dt (height g)) \<longrightarrow>
          cr (paddle_rect (paddle g)) (powerup_rect (fst (PowerUp_update p dt (height g))))
            = cr' (paddle_rect (paddle g)) (powerup_rect (fst (PowerUp_update p dt (height g))))"
  then show "handle_powerups cr dt g = handle_powerups cr' dt g"
    unfolding handle_powerups_def by (intro powerups_loop_cong [OF refl])
qed

theorem exit_before_collection_witness:
  "snd (PowerUp_update (PowerUp_init 400 590 EXTRA_LIFE) (1 / 10) (height exit_game))
   \<and> aabb (paddle_rect (paddle exit_game))
        (powerup_rect (fst (PowerUp_update (PowerUp_init 400 590 EXTRA_LIFE) (1 / 10)
                              (height exit_game))))
   \<and> handle_powerups aabb (1 / 10) exit_game
       = exit_game\<lparr>powerups := [(PowerUp_init 400 500 EXPAND_PADDLE)\<lparr>powerup_pos := vec 400 515\<rparr>]\<rparr>
   \<and> lives (handle_powerups aabb (1 / 10) exit_game) = 3
   \<and> score (handle_powerups aabb (1 / 10) exit_game) = 0
   \<and> handle_powerups aabb (1 / 10) (exit_game\<lparr>powerups := [PowerUp_init 400 590 EXTRA_LIFE]\<rparr>)
       = exit_game\<lparr>powerups := []\<rparr>
   \<and> handle_powerups aabb (1 / 10) exit_game = handle_powerups (\<lambda>a b. False) (1 / 10) exit_game"
proof -
  let ?p1 = "PowerUp_init 400 590 EXTRA_LIFE" and ?p2 = "PowerUp_init 400 500 EXPAND_PADDLE"
  let ?one = "exit_game\<lparr>powerups := [?p1]\<rparr>"
  have h: "height exit_game = 600" "powerups exit_game = [?p1, ?p2]"
    by (simp_all add: exit_game_def game0_def)
  have o1: "snd (PowerUp_update ?p1 (1 / 10) 600)"
    by (simp add: PowerUp_update_def PowerUp_init_def vec_def vec_add_def vec_mul_def)
  have o2: "\<not> snd (PowerUp_update ?p2 (1 / 10) 600)"
    by (simp add: PowerUp_update_def PowerUp_init_def vec_def vec_add_def vec_mul_def)
  have c1: "aabb (paddle_rect (paddle exit_game))
        (powerup_rect (fst (PowerUp_update ?p1 (1 / 10) 600)))"
    by (simp add: exit_game_def game0_def Paddle_init_def aabb_def paddle_rect_def
        powerup_rect_def mk_rect_def PowerUp_update_def PowerUp_init_def vec_def vec_add_def
        vec_mul_def)
  have c2: "\<not> aabb (paddle_rect (paddle exit_game))
        (powerup_rect (fst (PowerUp_update ?p2 (1 / 10) 600)))"
    by (simp add: exit_game_def game0_def Paddle_init_def aabb_def paddle_rect_def
        powerup_rect_def mk_rect_def PowerUp_update_def PowerUp_init_def vec_def vec_add_def
        vec_mul_def)
  have m2: "fst (PowerUp_update ?p2 (1 / 10) 600) = ?p2\<lparr>powerup_pos := vec 400 515\<rparr>"
    by (simp add: PowerUp_update_def PowerUp_init_def vec_def vec_add_def vec_mul_def)
  note T = exit_before_collection [of ?p1 "1 / 10" exit_game aabb "paddle_rect (paddle exit_game)"
      "[]" "[?p2]" "\<lambda>a b. False"]
  from T have "handle_powerups aabb (1 / 10) exit_game =
       handle_powerups aabb (1 / 10)
         (exit_game\<lparr>powerups := filter (\<lambda>p. \<not> snd (PowerUp_update p (1 / 10) (height exit_game)))
            (powerups exit_game)\<rparr>)"
    by blast
  also have "\<dots> = handle_powerups aabb (1 / 10) (exit_game\<lparr>powerups := [?p2]\<rparr>)"
    by (simp add: h o1 o2)
  also have "\<dots> = exit_game\<lparr>powerups := [?p2\<lparr>powerup_pos := vec 400 515\<rparr>]\<rparr>"
    using o2 c2 by (simp add: handle_powerups_def h split_def m2)
  finally have r: "handle_powerups aabb (1 / 10) exit_game
       = exit_game\<lparr>powerups := [?p2\<lparr>powerup_pos := vec 400 515\<rparr>]\<rparr>" .
  have ls: "lives (handle_powerups aabb (1 / 10) exit_game) = 3"
    "score (handle_powerups aabb (1 / 10) exit_game) = 0"
    unfolding r by (simp_all add: exit_game_def game0_def)
  have "\<forall>p \<in> set (powerups ?one). snd (PowerUp_update p (1 / 10) (height ?one))"
    using o1 by (simp add: h)
  with exit_before_collection [of ?p1 "1 / 10" ?one aabb "paddle_rect (paddle ?one)" "[]" "[]"
      "\<lambda>a b. False"]
  have "handle_powerups aabb (1 / 10) ?one = ?one\<lparr>powerups := []\<rparr>"
    by blast
  then have a: "handle_powerups aabb (1 / 10) ?one = exit_game\<lparr>powerups := []\<rparr>"
    by simp
  have "\<forall>p \<in> set (powerups exit_game). \<not> snd (PowerUp_update p (1 / 10) (height exit_game)) \<longrightarrow>
          aabb (paddle_rect (paddle exit_game))
             (powerup_rect (fst (PowerUp_update p (1 / 10) (height exit_game))))
            = (\<lambda>a b. False) (paddle_rect (paddle exit_game))
                (powerup_rect (fst (PowerUp_update p (1 / 10) (height exit_game))))"
    using o1 o2 c2 by (simp add: h)
  with T have e: "handle_powerups aabb (1 / 10) exit_game
                          = handle_powerups (\<lambda>a b. False) (1 / 10) exit_game"
    by blast
  from o1 c1 r ls a e show ?thesis by (simp add: h)
qed

subsection \<open>Brick health over a session\<close>

lemma generate_level_brick_ok:
  assumes "b \<in> set (bricks (generate_level n g))"
  shows "brick_ok b"
proof -
  from assms obtain c where c: "c \<in> set (level_cells (min (5 + n) 10) 10)"
    and cb: "cell_brick (min (5 + n) 10) c b"
    unfolding bricks_generate_level using generate_cells_bricks by blast
  from c have "int (snd c) < min (5 + n) 10"
    by (auto simp: set_level_cells)
  with cb show ?thesis
    by (auto simp: cell_brick_def brick_ok_def)
qed

lemma generate_level_fields:
  "width (generate_level n g) = width g" "height (generate_level n g) = height g"
  "state (generate_level n g) = state g" "level (generate_level n g) = level g"
  "lives (generate_level n g) = lives g" "score (generate_level n g) = score g"
  "balls (generate_level n g) = balls g" "paddle (generate_level n g) = paddle g"
  "powerups (generate_level n g) = powerups g"
  by (simp_all add: generate_level_def Let_def split_def)

lemma init_brick_ok: "b \<in> set (bricks (ArkanoidGame_init w h r)) \<Longrightarrow> brick_ok b"
  by (auto simp: ArkanoidGame_init_def split_def Let_def dest: generate_level_brick_ok)

lemma brick_collisions_brick_ok:
  "\<forall>b \<in> set (seen @ rest). brick_ok b \<Longrightarrow> \<forall>b \<in> set (bricks g). brick_ok b \<Longrightarrow>
     \<forall>b \<in> set (bricks (snd (brick_collisions cr brect seen rest ball g))). brick_ok b"
proof (induction rest arbitrary: seen)
  case Nil
  then show ?case by simp
next
  case (Cons p rest)
  show ?case
  proof (cases "cr (brick_rect p) brect")
    case True
    with Cons.prems show ?thesis
      by (auto simp: hit_def destroy_brick_fields brick_ok_def)
  next
    case False
    with Cons.IH [of "seen @ [p]"] Cons.prems show ?thesis by simp
  qed
qed

lemma handle_collision_brick_ok:
  assumes "handle_collision cr ball dt g = Inr (ball', g')"
    and "\<forall>b \<in> set (bricks g). brick_ok b"
  shows "\<forall>b \<in> set (bricks g'). brick_ok b"
proof -
  from assms(1) obtain ball1 g1 where
    pc: "paddle_collision cr (ball_rect ball) ball g = Inr (ball1, g1)"
    and r: "brick_collisions cr (ball_rect ball) [] (bricks g1) ball1 g1 = (ball', g')"
    by (auto simp: handle_collision_def Let_def split: sum.splits prod.splits)
  from assms(2) paddle_collision_fields(1) [OF pc]
  have "\<forall>b \<in> set ([] @ bricks g1). brick_ok b" "\<forall>b \<in> set (bricks g1). brick_ok b"
    by simp_all
  from brick_collisions_brick_ok [OF this, of cr "ball_rect ball" ball1] r
  show ?thesis by simp
qed

lemma balls_loop_brick_ok:
  "balls_loop cr dt kept rest g = Inr g' \<Longrightarrow> \<forall>b \<in> set (bricks g). brick_ok b \<Longrightarrow>
     \<forall>b \<in> set (bricks g'). brick_ok b"
proof (induction rest arbitrary: kept g)
  case Nil
  then show ?case by simp
next
  case (Cons ball rest)
  let ?u = "Ball_update ball dt (width g) (height g)"
  show ?case
  proof (cases "snd ?u")
    case True
    with Cons.prems(1) obtain k g1 where
      "balls_loop cr dt k rest g1 = Inr g'" "bricks g1 = bricks g"
      by (auto simp: split_def Let_def split: if_splits)
    with Cons.IH [of k g1] Cons.prems(2) show ?thesis by simp
  next
    case False
    with Cons.prems(1) obtain ball'' g1 where
      h: "handle_collision cr (fst ?u) dt g = Inr (ball'', g1)"
      and l: "balls_loop cr dt (kept @ [ball'']) rest (g1\<lparr>balls := kept @ ball'' # rest\<rparr>) = Inr g'"
      by (auto simp: split_def Let_def split: sum.splits)
    from handle_collision_brick_ok [OF h Cons.prems(2)]
    have "\<forall>b \<in> set (bricks (g1\<lparr>balls := kept @ ball'' # rest\<rparr>)). brick_ok b" by simp
    from Cons.IH [OF l this] show ?thesis .
  qed
qed

lemma powerups_loop_bricks:
  "bricks (powerups_loop cr dt prect kept ps g) = bricks g"
  by (induction ps arbitrary: kept g)
     (simp_all add: split_def Let_def create_particles_fields apply_powerup_fields)

lemma check_victory_brick_ok:
  "\<forall>b \<in> set (bricks g). brick_ok b \<Longrightarrow> \<forall>b \<in> set (bricks (check_victory g)). brick_ok b"
  by (auto simp: check_victory_def Let_def split_def dest: generate_level_brick_ok)

lemma check_pause_bricks: "bricks (check_pause events g) = bricks g"
  unfolding check_pause_def by (induction events arbitrary: g) simp_all

lemma handle_paused_bricks: "bricks (handle_paused events g) = bricks g"
  unfolding handle_paused_def by (induction events arbitrary: g) simp_all

lemma handle_menu_brick_ok:
  "\<forall>b \<in> set (bricks g). brick_ok b \<Longrightarrow> \<forall>b \<in> set (bricks (handle_menu events g)). brick_ok b"
  unfolding handle_menu_def
  by (induction events arbitrary: g) (auto dest: generate_level_brick_ok)

lemma handle_game_over_brick_ok:
  "\<forall>b \<in> set (bricks g). brick_ok b \<Longrightarrow>
     \<forall>b \<in> set (bricks (handle_game_over events g)). brick_ok b"
  unfolding handle_game_over_def
  by (induction events arbitrary: g) (auto dest: init_brick_ok)

lemma handle_playing_brick_ok:
  assumes "handle_playing cr dt events mouse_x g = Inr g'"
    and "\<forall>b \<in> set (bricks g). brick_ok b"
  shows "\<forall>b \<in> set (bricks g'). brick_ok b"
proof -
  let ?g1 = "g\<lparr>paddle := Paddle_update (paddle g) dt mouse_x (width g)\<rparr>"
  from assms(1) obtain g2 where
    l: "balls_loop cr dt [] (balls ?g1) ?g1 = Inr g2"
    and r: "g' = check_pause events (check_victory (handle_powerups cr dt
                   (g2\<lparr>particles := update_particles dt (particles g2)\<rparr>)))"
    by (auto simp: handle_playing_def Let_def split: sum.splits)
  from assms(2) have "\<forall>b \<in> set (bricks ?g1). brick_ok b" by simp
  from balls_loop_brick_ok [OF l this]
  have "\<forall>b \<in> set (bricks (handle_powerups cr dt
                   (g2\<lparr>particles := update_particles dt (particles g2)\<rparr>))). brick_ok b"
    by (simp add: handle_powerups_def powerups_loop_bricks)
  from check_victory_brick_ok [OF this] show ?thesis
    by (simp add: r check_pause_bricks)
qed

lemma frame_brick_ok:
  assumes "frame cr dt events mouse_x g = Inr g'" and "\<forall>b \<in> set (bricks g). brick_ok b"
  shows "\<forall>b \<in> set (bricks g'). brick_ok b"
proof (cases "state g")
  case MENU
  with assms handle_menu_brick_ok [of g events] show ?thesis by (auto simp: frame_def)
next
  case PLAYING
  with assms handle_playing_brick_ok [of cr dt events mouse_x g g'] show ?thesis
    by (simp add: frame_def)
next
  case PAUSED
  with assms show ?thesis by (auto simp: frame_def handle_paused_bricks)
next
  case GAME_OVER
  with assms handle_game_over_brick_ok [of g events] show ?thesis by (auto simp: frame_def)
next
  case VICTORY
  with assms handle_game_over_brick_ok [of g events] show ?thesis
    by (auto simp: frame_def handle_victory_def)
qed

text \<open>
  Claim C8. In every state of a session, from the constructor on and after any number of
  frames, every brick of the active list has \<open>0 \<le> health \<le> max_health\<close>; indeed
  \<open>1 \<le> health\<close>. Bricks come from the level generator with \<open>health = max_health \<ge> 1\<close>; the
  brick scan lowers the health of one brick per ball by 1 and removes it when that gives
  \<open>health \<le> 0\<close>, so a brick that stays had health at least 2. (The code has no clamp: a
  destroyed brick is removed with health exactly 0.)
\<close>

theorem brick_health_invariant:
  "reachable cr g \<Longrightarrow>
     \<forall>b \<in> set (bricks g).
        0 \<le> brick_health b \<and> 1 \<le> brick_health b \<and> brick_health b \<le> brick_max_health b"
proof -
  assume "reachable cr g"
  then have "\<forall>b \<in> set (bricks g). brick_ok b"
  proof (induction rule: reachable.induct)
    case (reachable_init w h r)
    then show ?case by (auto dest: init_brick_ok)
  next
    case (reachable_frame g dt events mouse_x g')
    from frame_brick_ok [OF reachable_frame.hyps(3) reachable_frame.IH] show ?case .
  qed
  then show ?thesis by (auto simp: brick_ok_def)
qed

lemma generate_level_half_rng:
  assumes "random_state g = half_rng"
  shows "random_state (generate_level n g) = half_rng"
    and "bricks (generate_level n g)
           = fst (generate_cells (min (5 + n) 10) (level_cells (min (5 + n) 10) 10) half_rng)"
  by (simp_all add: generate_level_def Let_def assms generate_cells_half_rng)

lemma init_half_rng:
  "random_state (ArkanoidGame_init w h half_rng) = half_rng"
  "state (ArkanoidGame_init w h half_rng) = MENU"
  "level (ArkanoidGame_init w h half_rng) = 1"
proof -
  have n: "rng_next half_rng = half_rng"
    by (simp add: rng_next_def half_rng_def)
  show "random_state (ArkanoidGame_init w h half_rng) = half_rng"
    by (simp add: ArkanoidGame_init_def Ball_init_eq n generate_level_half_rng)
  show "state (ArkanoidGame_init w h half_rng) = MENU"
    "level (ArkanoidGame_init w h half_rng) = 1"
    by (simp_all add: ArkanoidGame_init_def Ball_init_eq generate_level_fields)
qed

text \<open>The started session is reachable, in the Playing state, with the 60 bricks of
  level 1.\<close>

theorem brick_health_invariant_witness:
  "reachable aabb started_game
   \<and> state started_game = PLAYING
   \<and> length (bricks started_game) = 60
   \<and> brick_health (hd (bricks started_game)) = 5
   \<and> list_all (\<lambda>b. 0 \<le> brick_health b \<and> brick_health b \<le> brick_max_health b)
        (bricks started_game)"
proof -
  let ?i = "ArkanoidGame_init 800 600 half_rng"
  have s: "started_game = generate_level 1 (?i\<lparr>state := PLAYING\<rparr>)"
    by (simp add: started_game_def handle_menu_def init_half_rng)
  have f: "frame aabb 0 [MOUSEBUTTONDOWN] 400 ?i = Inr started_game"
    by (simp add: frame_def init_half_rng started_game_def)
  have r: "reachable aabb started_game"
    by (rule reachable_frame [OF reachable_init _ f]) simp
  have st: "state started_game = PLAYING"
    by (simp add: s generate_level_fields)
  have rs: "random_state (?i\<lparr>state := PLAYING\<rparr>) = half_rng"
    by (simp add: init_half_rng)
  have c: "level_cells 6 10 = (0, 0) # tl (level_cells 6 10)"
    by (simp add: level_cells_def upt_conv_Cons)
  have n: "length (level_cells 6 10) = 60"
    by (simp add: level_cells_def length_concat comp_def sum_list_triv)
  have b: "bricks started_game = fst (generate_cells 6 (level_cells 6 10) half_rng)"
    using generate_level_half_rng(2) [OF rs, of 1] by (simp add: s)
  have l: "length (bricks started_game) = 60 \<and> brick_health (hd (bricks started_game)) = 5"
    unfolding b generate_cells_half_rng by (subst (2) c) (simp add: n)
  from brick_health_invariant [OF r]
  have "list_all (\<lambda>b. 0 \<le> brick_health b \<and> brick_health b \<le> brick_max_health b)
        (bricks started_game)"
    by (simp add: list_all_iff)
  with r st l show ?thesis by simp
qed

subsection \<open>Losing balls\<close>

lemma started_game_fields:
  "width started_game = 800" "height started_game = 600" "state started_game = PLAYING"
  "score started_game = 0" "lives started_game = 3" "level started_game = 1"
  "paddle started_game = Paddle_init 350 550" "balls started_game = [launch_ball]"
  "particles started_game = []" "powerups started_game = []"
  "random_state started_game = half_rng"
proof -
  have n: "rng_next half_rng = half_rng"
    by (simp add: rng_next_def half_rng_def)
  have h0: "half_rng 0 mod 2 = 0"
    by (simp add: half_rng_def)
  have b: "Ball_init 400 520 half_rng = (launch_ball, half_rng)"
    by (simp add: Ball_init_eq n h0 launch_ball_def)
  have i: "ArkanoidGame_init 800 600 half_rng =
            generate_level 1
           \<lparr>width = 800, height = 600, state = MENU, score = 0, lives = 3, level = 1,
            paddle = Paddle_init 350 550,
            balls = [launch_ball], bricks = [], particles = [], powerups = [],
            random_state = half_rng\<rparr>"
    by (simp add: ArkanoidGame_init_def b)
  have s: "started_game = generate_level 1 ((ArkanoidGame_init 800 600 half_rng)\<lparr>state := PLAYING\<rparr>)"
    by (simp add: started_game_def handle_menu_def init_half_rng)
  show "width started_game = 800" "height started_game = 600" "state started_game = PLAYING"
    "score started_game = 0" "lives started_game = 3" "level started_game = 1"
    "paddle started_game = Paddle_init 350 550" "balls started_game = [launch_ball]"
    "powerups started_game = []"
    unfolding s by (simp_all add: generate_level_fields i)
  show "particles started_game = []"
    unfolding s i by (simp add: generate_level_def split_def Let_def)
  show "random_state started_game = half_rng"
    unfolding s by (simp add: generate_level_half_rng init_half_rng)
qed

lemma started_game_bricks:
  "bricks started_game \<noteq> []" "\<forall>b \<in> set (bricks started_game). 10 \<le> brick_x b"
proof -
  have s: "started_game = generate_level 1 ((ArkanoidGame_init 800 600 half_rng)\<lparr>state := PLAYING\<rparr>)"
    by (simp add: started_game_def handle_menu_def init_half_rng)
  have b: "bricks started_game = fst (generate_cells 6 (level_cells 6 10) half_rng)"
    unfolding s using generate_level_half_rng(2) [of "(ArkanoidGame_init 800 600 half_rng)\<lparr>state := PLAYING\<rparr>" 1]
    by (simp add: init_half_rng)
  have c: "level_cells 6 10 = (0, 0) # tl (level_cells 6 10)"
    by (simp add: level_cells_def upt_conv_Cons)
  show "bricks started_game \<noteq> []"
    unfolding b generate_cells_half_rng by (subst c) simp
  show "\<forall>b \<in> set (bricks started_game). 10 \<le> brick_x b"
    unfolding b generate_cells_half_rng by auto
qed

lemma reachable_started_game: "reachable aabb started_game"
proof -
  have f: "frame aabb 0 [MOUSEBUTTONDOWN] 400 (ArkanoidGame_init 800 600 half_rng)
             = Inr started_game"
    by (simp add: frame_def init_half_rng started_game_def)
  show ?thesis
    by (rule reachable_frame [OF reachable_init _ f]) simp
qed

lemma paddle_stays: "Paddle_update (Paddle_init 350 550) dt 400 800 = Paddle_init 350 550"
  by (simp add: Paddle_update_def Paddle_init_def Let_def)

lemma ball_updates:
  "Ball_update launch_ball 2 800 600 = (up_ball, False)"
  "Ball_update up_ball 2 800 600 = (down_ball, False)"
  "snd (Ball_update down_ball 2 800 600)"
  by (simp_all add: Ball_update_def launch_ball_def up_ball_def down_ball_def vec_def
      vec_add_def vec_mul_def Let_def run_collision_handlers)

text \<open>A ball that is left of the bricks and of the paddle collides with nothing.\<close>

lemma handle_collision_left_of_everything:
  assumes q: "quiet g" and x: "vec_x (ball_pos b) + ball_radius b \<le> 10" "0 \<le> ball_radius b"
  shows "handle_collision aabb b dt g = Inr (b, g)"
proof -
  have p: "paddle_collision aabb (ball_rect b) b g = Inr (b, g)"
    using q x
    by (simp add: paddle_collision_def quiet_def aabb_def paddle_rect_def ball_rect_def
        mk_rect_def Paddle_init_def)
  have "\<forall>p \<in> set (bricks g). \<not> aabb (brick_rect p) (ball_rect b)"
    using started_game_bricks(2) q x
    by (auto simp: quiet_def aabb_def brick_rect_def ball_rect_def mk_rect_def)
  with brick_collisions_no_hit [where cr = aabb and brect = "ball_rect b" and bs = "bricks g"
      and seen = "[]" and ball = b and g = g]
  have "brick_collisions aabb (ball_rect b) [] (bricks g) b g = (b, g)"
    by simp
  with p show ?thesis
    by (simp add: handle_collision_def)
qed

lemma quiet_frame:
  assumes q: "quiet g" and s: "state g = PLAYING" and b: "balls g = [b]"
    and u: "Ball_update b 2 800 600 = (b', False)"
    and x: "vec_x (ball_pos b') + ball_radius b' \<le> 10" "0 \<le> ball_radius b'"
  shows "\<exists>g'. frame aabb 2 [] 400 g = Inr g' \<and> quiet g' \<and> state g' = PLAYING
           \<and> balls g' = [b'] \<and> lives g' = lives g"
proof -
  let ?g1 = "g\<lparr>paddle := Paddle_update (paddle g) 2 400 (width g)\<rparr>"
  from q have q1: "quiet ?g1" by (simp add: quiet_def paddle_stays)
  from handle_collision_left_of_everything [OF q1 x]
  have hc: "handle_collision aabb b' 2 ?g1 = Inr (b', ?g1)" .
  from q have wh: "width g = 800" "height g = 600" by (simp_all add: quiet_def)
  have "balls_loop aabb 2 [] (balls ?g1) ?g1 = Inr (?g1\<lparr>balls := [b']\<rparr>)"
    using hc by (simp add: b wh u)
  then have "frame aabb 2 [] 400 g = Inr (?g1\<lparr>balls := [b']\<rparr>)"
    using q started_game_bricks(1)
    by (simp add: frame_def s handle_playing_def quiet_def update_particles_def
        handle_powerups_def check_victory_def check_pause_def paddle_stays)
  moreover from q have "quiet (?g1\<lparr>balls := [b']\<rparr>)" by (simp add: quiet_def paddle_stays)
  ultimately show ?thesis using s by simp
qed

lemma loss_frame:
  assumes q: "quiet g" and s: "state g = PLAYING" and b: "balls g = [b]"
    and u: "snd (Ball_update b 2 800 600)" and l: "1 < lives g"
  shows "\<exists>g'. frame aabb 2 [] 400 g = Inr g' \<and> quiet g' \<and> state g' = PLAYING
           \<and> balls g' = [launch_ball] \<and> lives g' = lives g - 1"
proof -
  let ?g1 = "g\<lparr>paddle := Paddle_update (paddle g) 2 400 (width g)\<rparr>"
  let ?g2 = "?g1\<lparr>balls := [], lives := lives g - 1, balls := [launch_ball],
                 random_state := half_rng\<rparr>"
  from q have q1: "quiet ?g1" by (simp add: quiet_def paddle_stays)
  from q have wh: "width g = 800" "height g = 600" "random_state g = half_rng"
    by (simp_all add: quiet_def)
  have n: "rng_next half_rng = half_rng"
    by (simp add: rng_next_def half_rng_def)
  have h0: "half_rng 0 mod 2 = 0"
    by (simp add: half_rng_def)
  have bi: "Ball_init 400 520 half_rng = (launch_ball, half_rng)"
    by (simp add: Ball_init_eq n h0 launch_ball_def)
  have "balls_loop aabb 2 [] (balls ?g1) ?g1 = Inr ?g2"
    using u l by (simp add: b wh split_def bi)
  then have "frame aabb 2 [] 400 g = Inr ?g2"
    using q started_game_bricks(1)
    by (simp add: frame_def s handle_playing_def quiet_def update_particles_def
        handle_powerups_def check_victory_def check_pause_def paddle_stays)
  moreover from q have "quiet ?g2" by (simp add: quiet_def paddle_stays)
  ultimately show ?thesis using s by simp
qed

lemma last_loss_frame:
  assumes q: "quiet g" and s: "state g = PLAYING" and b: "balls g = [b]"
    and u: "snd (Ball_update b 2 800 600)" and l: "lives g = 1"
  shows "\<exists>g'. frame aabb 2 [KEYDOWN K_ESCAPE] 400 g = Inr g' \<and> quiet g' \<and> state g' = PAUSED
           \<and> balls g' = [] \<and> lives g' = 0"
proof -
  let ?g1 = "g\<lparr>paddle := Paddle_update (paddle g) 2 400 (width g)\<rparr>"
  let ?g2 = "?g1\<lparr>balls := [], lives := 0, state := GAME_OVER\<rparr>"
  from q have q1: "quiet ?g1" by (simp add: quiet_def paddle_stays)
  from q have wh: "width g = 800" "height g = 600"
    by (simp_all add: quiet_def)
  have "balls_loop aabb 2 [] (balls ?g1) ?g1 = Inr ?g2"
    using u l by (simp add: b wh split_def)
  then have "frame aabb 2 [KEYDOWN K_ESCAPE] 400 g = Inr (?g2\<lparr>state := PAUSED\<rparr>)"
    using q started_game_bricks(1)
    by (simp add: frame_def s handle_playing_def quiet_def update_particles_def
        handle_powerups_def check_victory_def check_pause_def paddle_stays)
  moreover from q have "quiet (?g2\<lparr>state := PAUSED\<rparr>)" by (simp add: quiet_def paddle_stays)
  ultimately show ?thesis by simp
qed

lemma lose_a_life:
  assumes r: "reachable aabb g" and q: "quiet g" and s: "state g = PLAYING"
    and b: "balls g = [launch_ball]" and l: "1 < lives g"
  shows "\<exists>g'. reachable aabb g' \<and> quiet g' \<and> state g' = PLAYING
           \<and> balls g' = [launch_ball] \<and> lives g' = lives g - 1"
proof -
  have x: "vec_x (ball_pos up_ball) + ball_radius up_ball \<le> 10" "0 \<le> ball_radius up_ball"
    "vec_x (ball_pos down_ball) + ball_radius down_ball \<le> 10" "0 \<le> ball_radius down_ball"
    by (simp_all add: up_ball_def down_ball_def launch_ball_def vec_def)
  from quiet_frame [OF q s b ball_updates(1) x(1,2)] obtain g1 where
    1: "frame aabb 2 [] 400 g = Inr g1" "quiet g1" "state g1 = PLAYING" "balls g1 = [up_ball]"
       "lives g1 = lives g"
    by blast
  from quiet_frame [OF 1(2,3,4) ball_updates(2) x(3,4)] obtain g2 where
    2: "frame aabb 2 [] 400 g1 = Inr g2" "quiet g2" "state g2 = PLAYING" "balls g2 = [down_ball]"
       "lives g2 = lives g1"
    by blast
  from l 1(5) 2(5) have "1 < lives g2" by simp
  from loss_frame [OF 2(2,3,4) ball_updates(3) this] obtain g3 where
    3: "frame aabb 2 [] 400 g2 = Inr g3" "quiet g3" "state g3 = PLAYING"
       "balls g3 = [launch_ball]" "lives g3 = lives g2 - 1"
    by blast
  have "reachable aabb g1" by (rule reachable_frame [OF r _ 1(1)]) simp
  then have "reachable aabb g2" by (rule reachable_frame [OF _ _ 2(1)]) simp
  then have "reachable aabb g3" by (rule reachable_frame [OF _ _ 3(1)]) simp
  with 3 2(5) 1(5) show ?thesis by auto
qed

text \<open>
  Claim C4 ends: the ball list is never empty at the end of a Playing frame that stays in
  Playing. The pause check of \<^verbatim>\<open>_handle_playing\<close> runs after the ball loop whatever the
  state has become, so an Escape key in the frame that loses the last ball of the last
  life replaces GameOver by Paused; the next Escape resumes Playing with no ball and no
  life, and every later frame stays there. The first three conjuncts run this on
  \<open>last_life_game\<close>, for any overlap test. The last one shows such a state in a session:
  from the constructor on \<open>half_rng\<close>, a click, and frames of \<open>dt = 2\<close> with the mouse at
  400 (the ball is lost in every third one), Escape in the ninth and in the tenth.
\<close>

theorem playing_without_balls:
  "frame cr (1 / 60) [KEYDOWN K_ESCAPE] 400 last_life_game
     = Inr (game0\<lparr>lives := 0, balls := [], state := PAUSED\<rparr>)
   \<and> frame cr (1 / 60) [KEYDOWN K_ESCAPE] 400 (game0\<lparr>lives := 0, balls := [], state := PAUSED\<rparr>)
     = Inr (game0\<lparr>lives := 0, balls := [], state := PLAYING\<rparr>)
   \<and> frame cr (1 / 60) [] 400 (game0\<lparr>lives := 0, balls := [], state := PLAYING\<rparr>)
     = Inr (game0\<lparr>lives := 0, balls := [], state := PLAYING\<rparr>)
   \<and> (\<exists>g. reachable aabb g \<and> state g = PLAYING \<and> balls g = [] \<and> lives g = 0
          \<and> (\<exists>g'. frame aabb (1 / 60) [] 400 g = Inr g'
                 \<and> state g' = PLAYING \<and> balls g' = [] \<and> lives g' = 0))"
proof -
  have p: "Paddle_update (Paddle_init 350 550) (1 / 60) 400 800 = Paddle_init 350 550"
    by (rule paddle_stays)
  have u: "snd (Ball_update \<lparr>ball_pos = vec 400 599, ball_vel = vec 200 300, ball_radius = 8,
                     ball_trail = [], ball_speed_multiplier = 1\<rparr> (1 / 60) 800 600)"
    by (simp add: Ball_update_def vec_def vec_add_def vec_mul_def Let_def)
  have 1: "frame cr (1 / 60) [KEYDOWN K_ESCAPE] 400 last_life_game
     = Inr (game0\<lparr>lives := 0, balls := [], state := PAUSED\<rparr>)"
    using u
    by (simp add: frame_def handle_playing_def last_life_game_def game0_def p split_def
        update_particles_def handle_powerups_def check_victory_def check_pause_def)
  have 2: "frame cr (1 / 60) [KEYDOWN K_ESCAPE] 400 (game0\<lparr>lives := 0, balls := [], state := PAUSED\<rparr>)
     = Inr (game0\<lparr>lives := 0, balls := [], state := PLAYING\<rparr>)"
    by (simp add: frame_def handle_paused_def)
  have 3: "frame cr (1 / 60) [] 400 (game0\<lparr>lives := 0, balls := [], state := PLAYING\<rparr>)
     = Inr (game0\<lparr>lives := 0, balls := [], state := PLAYING\<rparr>)"
    by (simp add: frame_def handle_playing_def game0_def p
        update_particles_def handle_powerups_def check_victory_def check_pause_def)
  have x: "vec_x (ball_pos up_ball) + ball_radius up_ball \<le> 10" "0 \<le> ball_radius up_ball"
    "vec_x (ball_pos down_ball) + ball_radius down_ball \<le> 10" "0 \<le> ball_radius down_ball"
    by (simp_all add: up_ball_def down_ball_def launch_ball_def vec_def)
  have q0: "quiet started_game"
    by (simp add: quiet_def started_game_fields)
  from lose_a_life [OF reachable_started_game q0 started_game_fields(3,8)]
  obtain a where a: "reachable aabb a" "quiet a" "state a = PLAYING" "balls a = [launch_ball]"
    "lives a = 2"
    by (auto simp: started_game_fields)
  from lose_a_life [OF a(1-4)] a(5)
  obtain b where b: "reachable aabb b" "quiet b" "state b = PLAYING" "balls b = [launch_ball]"
    "lives b = 1"
    by auto
  from quiet_frame [OF b(2,3,4) ball_updates(1) x(1,2)] obtain c where
    c: "frame aabb 2 [] 400 b = Inr c" "quiet c" "state c = PLAYING" "balls c = [up_ball]"
       "lives c = lives b"
    by blast
  from quiet_frame [OF c(2,3,4) ball_updates(2) x(3,4)] obtain d where
    d: "frame aabb 2 [] 400 c = Inr d" "quiet d" "state d = PLAYING" "balls d = [down_ball]"
       "lives d = lives c"
    by blast
  from b(5) c(5) d(5) have "lives d = 1" by simp
  from last_loss_frame [OF d(2,3,4) ball_updates(3) this] obtain e where
    e: "frame aabb 2 [KEYDOWN K_ESCAPE] 400 d = Inr e" "quiet e" "state e = PAUSED"
       "balls e = []" "lives e = 0"
    by blast
  have "reachable aabb c" by (rule reachable_frame [OF b(1) _ c(1)]) simp
  then have "reachable aabb d" by (rule reachable_frame [OF _ _ d(1)]) simp
  then have re: "reachable aabb e" by (rule reachable_frame [OF _ _ e(1)]) simp
  let ?f = "e\<lparr>state := PLAYING\<rparr>"
  have f: "frame aabb (1 / 60) [KEYDOWN K_ESCAPE] 400 e = Inr ?f"
    by (simp add: frame_def handle_paused_def e(3))
  have rf: "reachable aabb ?f" by (rule reachable_frame [OF re _ f]) simp
  from e(2) have qf: "paddle ?f = Paddle_init 350 550" "width ?f = 800" "particles ?f = []"
    "powerups ?f = []" "bricks ?f \<noteq> []"
    by (simp_all add: quiet_def started_game_bricks)
  have "frame aabb (1 / 60) [] 400 ?f
          = Inr (?f\<lparr>paddle := Paddle_init 350 550, particles := []\<rparr>)"
    using qf e(4)
    by (simp add: frame_def handle_playing_def paddle_stays
        update_particles_def handle_powerups_def check_victory_def check_pause_def)
  then have "\<exists>g'. frame aabb (1 / 60) [] 400 ?f = Inr g'
                 \<and> state g' = PLAYING \<and> balls g' = [] \<and> lives g' = 0"
    using e(4,5) by simp
  with rf e(4,5) have "\<exists>g. reachable aabb g \<and> state g = PLAYING \<and> balls g = [] \<and> lives g = 0
          \<and> (\<exists>g'. frame aabb (1 / 60) [] 400 g = Inr g'
                 \<and> state g' = PLAYING \<and> balls g' = [] \<and> lives g' = 0)"
    by (intro exI [of _ ?f]) simp
  with 1 2 3 show ?thesis by blast
qed

text \<open>
  What the frame does guarantee. When the ball that leaves the field is the only one, the
  ball loop takes one life and then either puts one fresh ball at
  \<open>(width // 2, height - 80)\<close> or sets the state to GameOver.
\<close>

lemma last_ball_lost:
  assumes "snd (Ball_update ball dt (width g) (height g))"
  shows "balls_loop cr dt [] [ball] g =
           Inr (if lives g - 1 > 0
                then g\<lparr>balls := [fst (Ball_init (real_of_int (width g div 2))
                                      (real_of_int (height g - 80)) (random_state g))],
                       lives := lives g - 1,
                       random_state := snd (Ball_init (real_of_int (width g div 2))
                                              (real_of_int (height g - 80)) (random_state g))\<rparr>
                else g\<lparr>balls := [], lives := lives g - 1, state := GAME_OVER\<rparr>)"
  using assms by (simp add: split_def Let_def)

text \<open>The power-up pass and the brick scan leave the state alone, and the power-up pass
  never empties a ball list.\<close>

lemma effect_balls_state:
  "state (effect t g) = state g" "balls g \<noteq> [] \<Longrightarrow> balls (effect t g) \<noteq> []"
  by (cases t; simp add: split_def Let_def split: list.split)+

lemma powerups_loop_balls_state:
  "state (powerups_loop cr dt prect kept ps g) = state g"
  "balls g \<noteq> [] \<Longrightarrow> balls (powerups_loop cr dt prect kept ps g) \<noteq> []"
  by (induction ps arbitrary: kept g)
     (simp_all add: split_def Let_def create_particles_fields apply_powerup_def
       effect_balls_state)

lemma brick_collisions_state:
  "state (snd (brick_collisions cr brect seen rest ball g)) = state g"
  by (induction rest arbitrary: seen) (simp_all add: split_def Let_def destroy_brick_fields)

lemma handle_collision_state:
  assumes "handle_collision cr ball dt g = Inr (ball', g')"
  shows "state g' = state g"
proof -
  from assms obtain ball1 g1 where
    pc: "paddle_collision cr (ball_rect ball) ball g = Inr (ball1, g1)"
    and r: "brick_collisions cr (ball_rect ball) [] (bricks g1) ball1 g1 = (ball', g')"
    by (auto simp: handle_collision_def Let_def split: sum.splits prod.splits)
  from brick_collisions_state [of cr "ball_rect ball" "[]" "bricks g1" ball1 g1] r
  have "state g' = state g1" by simp
  with paddle_collision_fields(7) [OF pc] show ?thesis by simp
qed

text \<open>The ball loop ends with a ball in play, or in the GameOver state.\<close>

lemma balls_loop_balls:
  "balls_loop cr dt kept rest g = Inr g' \<Longrightarrow> balls g = kept @ rest \<Longrightarrow>
   kept @ rest \<noteq> [] \<or> state g = GAME_OVER \<Longrightarrow>
     balls g' \<noteq> [] \<and> state g' = state g \<or> state g' = GAME_OVER"
proof (induction rest arbitrary: kept g)
  case Nil
  then show ?case by auto
next
  case (Cons ball rest)
  let ?u = "Ball_update ball dt (width g) (height g)"
  show ?case
  proof (cases "snd ?u")
    case lost: True
    show ?thesis
    proof (cases "kept @ rest = []")
      case True
      show ?thesis
      proof (cases "lives g - 1 > 0")
        case True
        with lost \<open>kept @ rest = []\<close> Cons.prems(1) show ?thesis
          by (auto simp: split_def Let_def)
      next
        case False
        with lost \<open>kept @ rest = []\<close> Cons.prems(1) show ?thesis
          by (auto simp: split_def Let_def)
      qed
    next
      case False
      with lost Cons.prems(1)
      have "balls_loop cr dt kept rest (g\<lparr>balls := kept @ rest\<rparr>) = Inr g'"
        by (auto simp: split_def Let_def split: if_splits)
      from Cons.IH [OF this] False show ?thesis by simp
    qed
  next
    case False
    with Cons.prems(1) obtain ball'' g1 where
      h: "handle_collision cr (fst ?u) dt g = Inr (ball'', g1)"
      and l: "balls_loop cr dt (kept @ [ball'']) rest (g1\<lparr>balls := kept @ ball'' # rest\<rparr>) = Inr g'"
      by (auto simp: split_def Let_def split: sum.splits)
    from Cons.IH [OF l] handle_collision_state [OF h] show ?thesis by simp
  qed
qed

lemma check_pause_eq:
  "check_pause events g = (if KEYDOWN K_ESCAPE \<in> set events then g\<lparr>state := PAUSED\<rparr> else g)"
  unfolding check_pause_def by (induction events arbitrary: g) auto

lemma check_victory_balls:
  "balls (check_victory g) \<noteq> [] \<and> state (check_victory g) = state g
   \<or> state (check_victory g) = VICTORY \<or> check_victory g = g"
  by (auto simp: check_victory_def Let_def split_def generate_level_fields)

text \<open>So a Playing frame that starts with a ball in play and ends in the Playing state ends
  with a ball in play: the ball list is empty at the end of a frame only in the states
  GameOver, Victory and Paused, or when the frame started without a ball.\<close>

lemma playing_frame_keeps_a_ball:
  assumes f: "handle_playing cr dt events mouse_x g = Inr g'"
    and b: "balls g \<noteq> []" and s: "state g = PLAYING" and s': "state g' = PLAYING"
  shows "balls g' \<noteq> []"
proof -
  let ?g1 = "g\<lparr>paddle := Paddle_update (paddle g) dt mouse_x (width g)\<rparr>"
  from f obtain g2 where
    l: "balls_loop cr dt [] (balls ?g1) ?g1 = Inr g2"
    and r: "g' = check_pause events (check_victory (handle_powerups cr dt
                   (g2\<lparr>particles := update_particles dt (particles g2)\<rparr>)))"
    by (auto simp: handle_playing_def Let_def split: sum.splits)
  let ?g4 = "handle_powerups cr dt (g2\<lparr>particles := update_particles dt (particles g2)\<rparr>)"
  from balls_loop_balls [OF l] b s
  have 2: "balls g2 \<noteq> [] \<and> state g2 = PLAYING \<or> state g2 = GAME_OVER" by simp
  then have 4: "balls ?g4 \<noteq> [] \<and> state ?g4 = PLAYING \<or> state ?g4 = GAME_OVER"
    by (auto simp: handle_powerups_def powerups_loop_balls_state)
  with check_victory_balls [of ?g4]
  have 5: "balls (check_victory ?g4) \<noteq> [] \<and> state (check_victory ?g4) = PLAYING
           \<or> state (check_victory ?g4) = GAME_OVER \<or> state (check_victory ?g4) = VICTORY"
    by auto
  from 5 s' show ?thesis
    unfolding r by (auto simp: check_pause_eq split: if_splits)
qed

end
